theory Spec2Isabelle
  imports Complex_Main "HOL-Library.Word" "HOL-Library.Stream"
begin

chapter \<open>The embedding\<close>

unbundle bit_operations_syntax

section \<open>Shared types and constants (packages/shared/src/types/index.ts)\<close>

datatype GameMode = SOLO | DUO | SQUAD

datatype PayoutModel = WINNER_TAKE_ALL | TOP_3_LADDER | PROPORTIONAL

datatype LobbyState = WAITING | COUNTDOWN | ACTIVE | SUDDEN_SHRINK | SETTLEMENT | COMPLETED

text \<open>
  Numbers. A JavaScript number is an IEEE-754 double. Money amounts, tick counts and
  clock readings are integers far below \<open>2 ^ 53\<close>, where double arithmetic is exact; they
  are modelled as \<open>int\<close> or \<open>nat\<close>. Positions, velocities, radii and masses are modelled
  as \<open>real\<close> with exact arithmetic, with one exception: \<open>canEat\<close> compares a radius
  with a rounded product, and the rounding decides what happens at the exact ratio, so
  there the rounding to the nearest double (\<open>fl\<close>) is written out.
\<close>

definition TICK_RATE :: real where "TICK_RATE = 30"
definition MATCH_DURATION_MS :: int where "MATCH_DURATION_MS = 6 * 60 * 1000"
definition NORMAL_PHASE_MS :: int where "NORMAL_PHASE_MS = 270000"
definition SHRINK_PHASE_MS :: int where "SHRINK_PHASE_MS = 90000"
definition BOOST_COOLDOWN_MS :: int where "BOOST_COOLDOWN_MS = 6000"
definition MASS_TO_RADIUS_K :: real where "MASS_TO_RADIUS_K = 1.0"
definition GROWTH_CAP_MULTIPLIER :: real where "GROWTH_CAP_MULTIPLIER = 5.0"
definition INITIAL_PLAYER_MASS :: real where "INITIAL_PLAYER_MASS = 10"
definition PELLET_MASS :: real where "PELLET_MASS = 1"
definition MAX_VELOCITY :: real where "MAX_VELOCITY = 5.0"
definition FRICTION :: real where "FRICTION = 0.9"

subsection \<open>Rounding to the nearest double\<close>

text \<open>
  \<open>fl x\<close> is the double nearest to \<open>x\<close>, ties to the even significand (53 significant
  bits; overflow and subnormal numbers are out of the range of the radii, masses and
  amounts of a match and left out). Every operation of the source on doubles whose exact
  result need not be a double is followed by \<open>fl\<close>.
\<close>

definition round_half_even :: "real \<Rightarrow> int" where
  "round_half_even y =
     (let n = \<lfloor>y\<rfloor>; r = y - of_int n
      in if r < 1 / 2 then n else if 1 / 2 < r then n + 1 else if even n then n else n + 1)"

definition fl :: "real \<Rightarrow> real" where
  "fl x =
     (if x = 0 then 0
      else let e = \<lfloor>log 2 \<bar>x\<bar>\<rfloor> - 52
           in of_int (round_half_even (x / 2 powr of_int e)) * 2 powr of_int e)"

text \<open>The literal \<open>1.15\<close> denotes the double nearest to 23/20.\<close>

definition COLLISION_SIZE_RATIO :: real where "COLLISION_SIZE_RATIO = fl 1.15"

subsection \<open>Runtime entities\<close>

record Vector2D =
  x_coord :: real
  y_coord :: real

record Circle =
  pos :: Vector2D
  radius :: real
  mass :: real

record Player = Circle +
  player_id :: string
  userId :: string
  teamNo :: int
  velocity :: Vector2D
  inputAxes :: Vector2D
  boost :: bool
  lastBoostTime :: int
  isDead :: bool
  kills :: nat

record Pellet = Circle +
  pellet_id :: string
  consumed :: bool

text \<open>
  What the engine reads from outside the program: the clock (\<open>Date.now()\<close>), the
  unseeded generator (\<open>Math.random()\<close>) and the identifier source (\<open>uuidv4()\<close>). Each
  call takes the next element of its stream.
\<close>

record World =
  clock :: "int stream"
  randoms :: "real stream"
  uuids :: "string stream"

definition Date_now :: "World \<Rightarrow> int \<times> World" where
  "Date_now w = (shd (clock w), w\<lparr>clock := stl (clock w)\<rparr>)"

definition Math_random :: "World \<Rightarrow> real \<times> World" where
  "Math_random w = (shd (randoms w), w\<lparr>randoms := stl (randoms w)\<rparr>)"

definition uuidv4 :: "World \<Rightarrow> string \<times> World" where
  "uuidv4 w = (shd (uuids w), w\<lparr>uuids := stl (uuids w)\<rparr>)"

section \<open>Physics kernel (class PhysicsEngine)\<close>

text \<open>
  \<open>Math.sqrt\<close> of a negative number is NaN; the model uses it on masses and on sums of
  squares only, which are never negative while the growth cap is not (see
  \<open>run_ops_mass_nonneg\<close>).
\<close>

definition massToRadius :: "real \<Rightarrow> real" where
  "massToRadius m = MASS_TO_RADIUS_K * sqrt m"

text \<open>
  \<open>calculateMaxVelocity\<close> divides by \<open>Math.sqrt(massRatio)\<close>. For a mass of zero the
  JavaScript quotient is \<open>Infinity\<close>, which no speed exceeds: \<open>None\<close> stands for it.
\<close>

definition calculateMaxVelocity :: "real \<Rightarrow> real option" where
  "calculateMaxVelocity m =
     (let baseMass = INITIAL_PLAYER_MASS; massRatio = m / baseMass
      in if sqrt massRatio = 0 then None else Some (MAX_VELOCITY / sqrt massRatio))"

definition exceeds :: "real \<Rightarrow> real option \<Rightarrow> bool" where
  "exceeds speed maxVel = (case maxVel of None \<Rightarrow> False | Some v \<Rightarrow> v < speed)"

definition scale :: "real \<Rightarrow> Vector2D \<Rightarrow> Vector2D" where
  "scale k v = \<lparr>x_coord = x_coord v * k, y_coord = y_coord v * k\<rparr>"

definition updatePlayer :: "Player \<Rightarrow> real \<Rightarrow> World \<Rightarrow> Player \<times> World" where
  "updatePlayer player deltaTime w =
     (if isDead player then (player, w)
      else
        let r = massToRadius (mass player);
            maxVel = calculateMaxVelocity (mass player);
            acceleration = 2.0;
            v1 = \<lparr>x_coord = x_coord (velocity player) + x_coord (inputAxes player) * acceleration * deltaTime,
                  y_coord = y_coord (velocity player) + y_coord (inputAxes player) * acceleration * deltaTime\<rparr>;
            v2 = scale FRICTION v1;
            speed = sqrt ((x_coord v2)\<^sup>2 + (y_coord v2)\<^sup>2);
            v3 = (if exceeds speed maxVel
                  then \<lparr>x_coord = (x_coord v2 / speed) * the maxVel,
                        y_coord = (y_coord v2 / speed) * the maxVel\<rparr>
                  else v2);
            (v4, lastBoost, w') =
               (if boost player
                then (let (now, w1) = Date_now w
                      in if now - lastBoostTime player \<ge> BOOST_COOLDOWN_MS
                         then (scale 2.0 v3, now, w1)
                         else (v3, lastBoostTime player, w1))
                else (v3, lastBoostTime player, w));
            p = \<lparr>x_coord = x_coord (pos player) + x_coord v4 * deltaTime,
                 y_coord = y_coord (pos player) + y_coord v4 * deltaTime\<rparr>
        in (player\<lparr>radius := r, velocity := v4, boost := False, lastBoostTime := lastBoost, pos := p\<rparr>, w'))"

definition checkCollision :: "Vector2D \<Rightarrow> real \<Rightarrow> Vector2D \<Rightarrow> real \<Rightarrow> bool" where
  "checkCollision pos1 radius1 pos2 radius2 =
     (let dx = x_coord pos2 - x_coord pos1;
          dy = y_coord pos2 - y_coord pos1;
          distance = sqrt (dx * dx + dy * dy)
      in distance < radius1 + radius2)"

definition canEat :: "Player \<Rightarrow> Player \<Rightarrow> bool" where
  "canEat eater target =
     (if isDead eater \<or> isDead target then False
      else if teamNo eater > 0 \<and> teamNo eater = teamNo target then False
      else radius eater > fl (radius target * COLLISION_SIZE_RATIO))"

text \<open>
  \<open>eatPlayer\<close> mutates both cells; the model returns the eater, the target and
  \<open>massGained\<close>. The engine calls it on two distinct cells.
\<close>

definition eatPlayer :: "Player \<Rightarrow> Player \<Rightarrow> real \<Rightarrow> Player \<times> Player \<times> real" where
  "eatPlayer eater target growthCap =
     (if \<not> canEat eater target then (eater, target, 0)
      else if \<not> checkCollision (pos eater) (radius eater) (pos target) (radius target)
      then (eater, target, 0)
      else
        let massToTransfer = mass target;
            newMass = min (mass eater + massToTransfer) growthCap;
            actualGain = newMass - mass eater
        in (eater\<lparr>mass := newMass, kills := kills eater + 1\<rparr>,
            target\<lparr>isDead := True, mass := 0, radius := 0\<rparr>,
            actualGain))"

definition eatPellet :: "Player \<Rightarrow> Pellet \<Rightarrow> real \<Rightarrow> Player \<times> Pellet \<times> bool" where
  "eatPellet player pellet growthCap =
     (if isDead player \<or> consumed pellet then (player, pellet, False)
      else if checkCollision (pos player) (radius player) (pos pellet) (radius pellet)
      then (let newMass = min (mass player + PELLET_MASS) growthCap
            in (player\<lparr>mass := newMass\<rparr>, pellet\<lparr>consumed := True\<rparr>, True))
      else (player, pellet, False))"

definition applyFogDamage :: "Player \<Rightarrow> real \<Rightarrow> real \<Rightarrow> Player" where
  "applyFogDamage player fogRadius deltaTime =
     (if isDead player then player
      else
        let distance = sqrt ((x_coord (pos player))\<^sup>2 + (y_coord (pos player))\<^sup>2)
        in if distance > fogRadius
           then (let damageRate = 5.0;
                     m = max 0 (mass player - damageRate * deltaTime)
                 in player\<lparr>mass := m, isDead := (if m \<le> 0 then True else isDead player)\<rparr>)
           else player)"

text \<open>
  \<open>constrainToMap\<close> puts a cell that left the map back on the boundary, at the angle
  \<open>Math.atan2(y, x)\<close>. For a point at distance \<open>d > 0\<close> from the origin the cosine and
  the sine of that angle are \<open>x / d\<close> and \<open>y / d\<close>.
\<close>

definition constrainToMap :: "Player \<Rightarrow> real \<Rightarrow> Player" where
  "constrainToMap player mapRadius =
     (let distance = sqrt ((x_coord (pos player))\<^sup>2 + (y_coord (pos player))\<^sup>2)
      in if distance > mapRadius
         then player\<lparr>pos := \<lparr>x_coord = (x_coord (pos player) / distance) * mapRadius,
                              y_coord = (y_coord (pos player) / distance) * mapRadius\<rparr>,
                     velocity := scale (-0.5) (velocity player)\<rparr>
         else player)"

section \<open>The match (class Match)\<close>

record PlayerData =
  pd_userId :: string
  pd_teamNo :: int

text \<open>
  \<open>rakeCapCents\<close> is a number: an integer, or \<open>Infinity\<close>, which \<open>startMatch\<close> of the lobby
  service puts in place of an absent cap (\<open>rake_cap_cents || Infinity\<close>). \<open>None\<close> stands
  for \<open>Infinity\<close>.
\<close>

record MatchConfig =
  matchId :: string
  lobbyId :: string
  mode :: GameMode
  buyInCents :: int
  payoutModel :: PayoutModel
  rakeBps :: int
  rakeCapCents :: "int option"
  seed :: string
  nonce :: string
  commit :: string
  mapRadius :: real
  players_cfg :: "PlayerData list"

datatype WSEvent = EV_COUNTDOWN | EV_KILL string string | EV_SHRINK | EV_END

text \<open>
  The maps \<open>players\<close> and \<open>pellets\<close> are kept as lists in insertion order, the order in
  which a JavaScript \<open>Map\<close> is traversed. \<open>events\<close> records what \<open>emitEvent\<close> was called
  with, oldest first.
\<close>

record Match =
  config :: MatchConfig
  state :: LobbyState
  tick :: nat
  startTime :: int
  countdownStartTime :: int
  players :: "Player list"
  pellets :: "Pellet list"
  fogRadius :: real
  growthCap :: real
  events :: "WSEvent list"

subsection \<open>Settlement arithmetic (calculateResults)\<close>

record Standing =
  st_userId :: string
  finalMass :: real
  maxMass :: real

record Result =
  res_userId :: string
  placement :: nat
  res_finalMass :: real
  res_maxMass :: real
  payoutCents :: int

definition pot_of :: "MatchConfig \<Rightarrow> int" where
  "pot_of c = buyInCents c * int (length (players_cfg c))"

text \<open>
  The pot, its product with \<open>rakeBps\<close> and the net pot are integers, and exact in doubles
  as long as they stay below \<open>2 ^ 53\<close>; the quotient by 10000 is rounded.
\<close>

definition rake_of :: "MatchConfig \<Rightarrow> int" where
  "rake_of c =
     (let raw = \<lfloor>fl (real_of_int (pot_of c * rakeBps c) / 10000)\<rfloor>
      in case rakeCapCents c of None \<Rightarrow> raw | Some cap \<Rightarrow> min raw cap)"

definition netPot_of :: "MatchConfig \<Rightarrow> int" where
  "netPot_of c = pot_of c - rake_of c"

text \<open>
  \<open>Array.prototype.sort\<close> is stable, and so is \<open>sort_key\<close>; the comparator
  \<open>b.finalMass - a.finalMass\<close> orders by mass, largest first.
\<close>

definition sortedPlayers :: "Player list \<Rightarrow> Standing list" where
  "sortedPlayers ps =
     sort_key (\<lambda>a. - finalMass a)
       (map (\<lambda>p. \<lparr>st_userId = userId p, finalMass = mass p, maxMass = mass p\<rparr>) ps)"

text \<open>
  The literals \<open>0.65\<close>, \<open>0.25\<close> and \<open>0.1\<close> denote the doubles nearest to them. The products
  of the ladder, the sum of the masses (\<open>reduce\<close>, from the left), the quotient
  \<open>p.finalMass / totalMass\<close> and its product with the net pot are rounded one by one.
\<close>

definition payouts_of :: "PayoutModel \<Rightarrow> int \<Rightarrow> Standing list \<Rightarrow> int list" where
  "payouts_of model netPot ranked =
     (case model of
        WINNER_TAKE_ALL \<Rightarrow> map (\<lambda>i. if i = 0 then netPot else 0) [0..<length ranked]
      | TOP_3_LADDER \<Rightarrow>
          map (\<lambda>i. if i = 0 then \<lfloor>fl (real_of_int netPot * fl 0.65)\<rfloor>
                    else if i = 1 then \<lfloor>fl (real_of_int netPot * fl 0.25)\<rfloor>
                    else if i = 2 then \<lfloor>fl (real_of_int netPot * fl 0.1)\<rfloor>
                    else 0) [0..<length ranked]
      | PROPORTIONAL \<Rightarrow>
          (let totalMass = foldl (\<lambda>sum p. fl (sum + finalMass p)) 0 ranked
           in map (\<lambda>p. if totalMass > 0
                         then \<lfloor>fl (fl (finalMass p / totalMass) * real_of_int netPot)\<rfloor>
                         else 0) ranked))"

definition calculateResults :: "Match \<Rightarrow> Result list" where
  "calculateResults m =
     (let ranked = sortedPlayers (players m);
          payouts = payouts_of (payoutModel (config m)) (netPot_of (config m)) ranked
      in map (\<lambda>i. \<lparr>res_userId = st_userId (ranked ! i),
                     placement = i + 1,
                     res_finalMass = finalMass (ranked ! i),
                     res_maxMass = maxMass (ranked ! i),
                     payoutCents = payouts ! i\<rparr>) [0..<length ranked])"


text \<open>
  The spec's rule for the degenerate proportional case, in the spec's words: an equal
  split of the net pot, the residue of the division added to rank 1.
\<close>

definition spec_equal_split :: "int \<Rightarrow> nat \<Rightarrow> int list" where
  "spec_equal_split netPot n =
     map (\<lambda>i. if i = 0 then netPot div int n + netPot mod int n else netPot div int n) [0..<n]"

subsection \<open>Sequences of kernel operations on the cells of a match\<close>

datatype Op =
    UpdatePlayer nat real
  | EatPlayer nat nat
  | EatPellet nat Pellet
  | ApplyFogDamage nat real real

text \<open>
  An operation names its cells by their index in the list; an index out of range, or
  \<open>EatPlayer\<close> on one cell twice, leaves the cells as they are (the engine has no such
  call).
\<close>

fun apply_op :: "real \<Rightarrow> Op \<Rightarrow> Player list \<times> World \<Rightarrow> Player list \<times> World" where
  "apply_op cap (UpdatePlayer i dt) (ps, w) =
     (if i < length ps
      then (let (p, w') = updatePlayer (ps ! i) dt w in (ps[i := p], w'))
      else (ps, w))"
| "apply_op cap (EatPlayer i j) (ps, w) =
     (if i < length ps \<and> j < length ps \<and> i \<noteq> j
      then (let (e, t, g) = eatPlayer (ps ! i) (ps ! j) cap in (ps[i := e, j := t], w))
      else (ps, w))"
| "apply_op cap (EatPellet i pellet) (ps, w) =
     (if i < length ps
      then (let (p, q, b) = eatPellet (ps ! i) pellet cap in (ps[i := p], w))
      else (ps, w))"
| "apply_op cap (ApplyFogDamage i fogR dt) (ps, w) =
     (if i < length ps then (ps[i := applyFogDamage (ps ! i) fogR dt], w) else (ps, w))"

fun run_ops :: "real \<Rightarrow> Op list \<Rightarrow> Player list \<times> World \<Rightarrow> Player list \<times> World" where
  "run_ops cap [] s = s"
| "run_ops cap (opn # ops) s = run_ops cap ops (apply_op cap opn s)"

fun op_time_ok :: "Op \<Rightarrow> bool" where
  "op_time_ok (UpdatePlayer i dt) = (0 \<le> dt)"
| "op_time_ok (ApplyFogDamage i fogR dt) = (0 \<le> dt)"
| "op_time_ok _ = True"

subsection \<open>The seeded generator (createSeededRNG, seedToNumber, randomPointInCircle)\<close>

text \<open>
  \<open>seedToNumber\<close> of the match is a string hash in 32-bit signed arithmetic
  (\<open>hash << 5\<close>, \<open>hash |= 0\<close>), of which it returns the absolute value. The seed is a
  string of hexadecimal digits, so \<open>charCodeAt\<close> is the byte of the character.
\<close>

definition seedToNumber :: "string \<Rightarrow> nat" where
  "seedToNumber s =
     nat \<bar>sint (foldl (\<lambda>hash c. push_bit 5 hash - hash + (of_nat (of_char c) :: 32 word)) 0 s)\<bar>"

text \<open>
  The generator is a closure over \<open>state\<close>; a call returns the next number in
  \<open>[0, 1)\<close> and leaves the new state. The products stay below \<open>2 ^ 53\<close>, so the double
  arithmetic of the source is exact.
\<close>

definition rng_next :: "nat \<Rightarrow> real \<times> nat" where
  "rng_next st =
     (let st' = (st * 1664525 + 1013904223) mod 4294967296
      in (real st' / 4294967296, st'))"

definition randomPointInCircle :: "nat \<Rightarrow> real \<Rightarrow> Vector2D \<times> nat" where
  "randomPointInCircle st rad =
     (let (u1, st1) = rng_next st;
          angle = u1 * pi * 2;
          (u2, st2) = rng_next st1;
          r = sqrt u2 * rad
      in (\<lparr>x_coord = cos angle * r, y_coord = sin angle * r\<rparr>, st2))"

subsection \<open>Construction of a match\<close>

text \<open>\<open>Map.set\<close>: a key that is present keeps its place and gets the new value.\<close>

fun map_set :: "('a \<Rightarrow> string) \<Rightarrow> 'a \<Rightarrow> 'a list \<Rightarrow> 'a list" where
  "map_set key v [] = [v]"
| "map_set key v (u # us) = (if key u = key v then v # us else u # map_set key v us)"

fun initializePlayers_loop :: "real \<Rightarrow> PlayerData list \<Rightarrow> nat \<Rightarrow> World \<Rightarrow> Player list \<Rightarrow> Player list \<times> World" where
  "initializePlayers_loop rad [] st w ps = (ps, w)"
| "initializePlayers_loop rad (playerData # rest) st w ps =
     (let (spawnPos, st') = randomPointInCircle st (rad * 0.7);
          (newId, w') = uuidv4 w;
          player = \<lparr>pos = spawnPos, radius = massToRadius INITIAL_PLAYER_MASS,
                    mass = INITIAL_PLAYER_MASS, player_id = newId, userId = pd_userId playerData,
                    teamNo = pd_teamNo playerData, velocity = \<lparr>x_coord = 0, y_coord = 0\<rparr>,
                    inputAxes = \<lparr>x_coord = 0, y_coord = 0\<rparr>, boost = False, lastBoostTime = 0,
                    isDead = False, kills = 0\<rparr>
      in initializePlayers_loop rad rest st' w' (map_set player_id player ps))"

definition initializePlayers :: "MatchConfig \<Rightarrow> World \<Rightarrow> Player list \<times> World" where
  "initializePlayers c w =
     initializePlayers_loop (mapRadius c) (players_cfg c) (seedToNumber (seed c)) w []"

definition spawnPellet :: "real \<Rightarrow> nat \<Rightarrow> World \<Rightarrow> Pellet list \<Rightarrow> Pellet list \<times> nat \<times> World" where
  "spawnPellet rad st w qs =
     (let (p, st') = randomPointInCircle st rad;
          (newId, w') = uuidv4 w;
          pellet = \<lparr>pos = p, radius = massToRadius PELLET_MASS, mass = PELLET_MASS,
                    pellet_id = newId, consumed = False\<rparr>
      in (map_set pellet_id pellet qs, st', w'))"

fun initializePellets_loop :: "nat \<Rightarrow> real \<Rightarrow> nat \<Rightarrow> World \<Rightarrow> Pellet list \<Rightarrow> Pellet list \<times> World" where
  "initializePellets_loop 0 rad st w qs = (qs, w)"
| "initializePellets_loop (Suc n) rad st w qs =
     (let (qs', st', w') = spawnPellet rad st w qs
      in initializePellets_loop n rad st' w' qs')"

definition initializePellets :: "MatchConfig \<Rightarrow> World \<Rightarrow> Pellet list \<times> World" where
  "initializePellets c w =
     (let pelletCount = 500
      in initializePellets_loop pelletCount (mapRadius c) (seedToNumber (seed c)) w [])"

definition new_Match :: "MatchConfig \<Rightarrow> World \<Rightarrow> Match \<times> World" where
  "new_Match c w =
     (let (ps, w1) = initializePlayers c w;
          (qs, w2) = initializePellets c w1
      in (\<lparr>config = c, state = COUNTDOWN, tick = 0, startTime = 0, countdownStartTime = 0,
           players = ps, pellets = qs, fogRadius = mapRadius c,
           growthCap = real_of_int (buyInCents c) * GROWTH_CAP_MULTIPLIER, events = []\<rparr>, w2))"

subsection \<open>The tick (startCountdown, startMatch, update)\<close>

definition emitEvent :: "WSEvent \<Rightarrow> Match \<Rightarrow> Match" where
  "emitEvent ev m = m\<lparr>events := events m @ [ev]\<rparr>"

definition startCountdown :: "Match \<Rightarrow> World \<Rightarrow> Match \<times> World" where
  "startCountdown m w =
     (let (now, w') = Date_now w
      in (emitEvent EV_COUNTDOWN (m\<lparr>state := COUNTDOWN, countdownStartTime := now\<rparr>), w'))"

definition startMatch :: "Match \<Rightarrow> World \<Rightarrow> Match \<times> World" where
  "startMatch m w = (let (now, w') = Date_now w in (m\<lparr>state := ACTIVE, startTime := now\<rparr>, w'))"

definition updatePlayerInput :: "string \<Rightarrow> Vector2D \<Rightarrow> bool \<Rightarrow> Match \<Rightarrow> Match" where
  "updatePlayerInput playerId axes b m =
     m\<lparr>players := map (\<lambda>p. if player_id p = playerId then p\<lparr>inputAxes := axes, boost := b\<rparr> else p)
                       (players m)\<rparr>"

definition endMatch :: "Match \<Rightarrow> Match" where
  "endMatch m = emitEvent EV_END (m\<lparr>state := SETTLEMENT\<rparr>)"

text \<open>The first loop of \<open>update\<close>: every cell moves, is kept on the map and, in the shrink phase, takes fog damage.\<close>

fun move_players :: "LobbyState \<Rightarrow> real \<Rightarrow> real \<Rightarrow> real \<Rightarrow> Player list \<Rightarrow> World \<Rightarrow> Player list \<times> World" where
  "move_players st rad fogR deltaTime [] w = ([], w)"
| "move_players st rad fogR deltaTime (player # rest) w =
     (let (p1, w1) = updatePlayer player deltaTime w;
          p2 = constrainToMap p1 rad;
          p3 = (if st = SUDDEN_SHRINK then applyFogDamage p2 fogR deltaTime else p2);
          (rest', w') = move_players st rad fogR deltaTime rest w1
      in (p3 # rest', w'))"

text \<open>The second loop: every pair of cells \<open>i < j\<close>, in the order of the nested loops.\<close>

definition collide_pair :: "real \<Rightarrow> nat \<times> nat \<Rightarrow> Player list \<times> WSEvent list \<Rightarrow> Player list \<times> WSEvent list" where
  "collide_pair cap ij s =
     (let (i, j) = ij; (ps, evs) = s; p1 = ps ! i; p2 = ps ! j
      in if canEat p1 p2
         then (let (e, t, massGained) = eatPlayer p1 p2 cap
               in (ps[i := e, j := t],
                   if massGained > 0 then evs @ [EV_KILL (userId p1) (userId p2)] else evs))
         else if canEat p2 p1
         then (let (e, t, massGained) = eatPlayer p2 p1 cap
               in (ps[j := e, i := t],
                   if massGained > 0 then evs @ [EV_KILL (userId p2) (userId p1)] else evs))
         else (ps, evs))"

definition player_pairs :: "nat \<Rightarrow> (nat \<times> nat) list" where
  "player_pairs n = concat (map (\<lambda>i. map (\<lambda>j. (i, j)) [i + 1..<n]) [0..<n])"

definition collide_players :: "real \<Rightarrow> Player list \<Rightarrow> Player list \<times> WSEvent list" where
  "collide_players cap ps = fold (collide_pair cap) (player_pairs (length ps)) (ps, [])"

text \<open>
  The third loop: every cell takes every pellet it touches. A pellet that is eaten is
  deleted from the map at once (its key is its own), so the next cell does not see it.
\<close>

fun eat_pellets :: "Player \<Rightarrow> real \<Rightarrow> Pellet list \<Rightarrow> Player \<times> Pellet list" where
  "eat_pellets player cap [] = (player, [])"
| "eat_pellets player cap (pellet # rest) =
     (let (p', q', ate) = eatPellet player pellet cap;
          (p'', rest') = eat_pellets p' cap rest
      in if ate then (p'', rest') else (p'', pellet # rest'))"

fun feed_players :: "real \<Rightarrow> Player list \<Rightarrow> Pellet list \<Rightarrow> Player list \<times> Pellet list" where
  "feed_players cap [] qs = ([], qs)"
| "feed_players cap (player # rest) qs =
     (let (p', qs') = eat_pellets player cap qs;
          (rest', qs'') = feed_players cap rest qs'
      in (p' # rest', qs''))"

text \<open>
  The respawn at the end of \<open>update\<close>. The two draws of \<open>Math.random()\<close> are made only
  where the source makes them (\<open>||\<close> and \<open>&&\<close> evaluate their right side on demand). The
  new pellet is drawn from a generator made afresh from the seed.
\<close>

definition respawn :: "Match \<Rightarrow> World \<Rightarrow> Match \<times> World" where
  "respawn m w =
     (let (gate, w1) = (if state m = ACTIVE then (True, w)
                        else (let (r, w') = Math_random w in (r > 0.5, w')))
      in if gate
         then (if length (pellets m) < 500
               then (let (r, w2) = Math_random w1
                     in if r < 0.1
                        then (let (qs, st, w3) =
                                    spawnPellet (mapRadius (config m)) (seedToNumber (seed (config m)))
                                      w2 (pellets m)
                              in (m\<lparr>pellets := qs\<rparr>, w3))
                        else (m, w2))
               else (m, w1))
         else (m, w1))"

definition physics_step :: "Match \<Rightarrow> World \<Rightarrow> Match \<times> World" where
  "physics_step m w =
     (let deltaTime = 1 / TICK_RATE;
          (ps1, w1) = move_players (state m) (mapRadius (config m)) (fogRadius m) deltaTime (players m) w;
          (ps2, evs) = collide_players (growthCap m) ps1;
          (ps3, qs) = feed_players (growthCap m) ps2 (pellets m)
      in respawn (m\<lparr>players := ps3, pellets := qs, events := events m @ evs\<rparr>) w1)"

definition update :: "Match \<Rightarrow> World \<Rightarrow> Match \<times> World" where
  "update m0 w0 =
     (let m = m0\<lparr>tick := tick m0 + 1\<rparr>;
          (now, w) = Date_now w0
      in if state m = COUNTDOWN
         then (if now - countdownStartTime m \<ge> 10000 then startMatch m w else (m, w))
         else
           let m1 = (if state m = ACTIVE \<and> now - startTime m \<ge> NORMAL_PHASE_MS
                     then emitEvent EV_SHRINK (m\<lparr>state := SUDDEN_SHRINK\<rparr>) else m)
           in if state m1 = SUDDEN_SHRINK
              then (let elapsed = now - startTime m1
                    in if elapsed \<ge> MATCH_DURATION_MS then (endMatch m1, w)
                       else
                         let shrinkProgress =
                               real_of_int (elapsed - NORMAL_PHASE_MS) / real_of_int SHRINK_PHASE_MS
                         in physics_step
                              (m1\<lparr>fogRadius := mapRadius (config m1) * (1 - shrinkProgress * 0.65)\<rparr>) w)
              else physics_step m1 w)"

subsection \<open>Concrete inputs used in the worked examples\<close>

definition origin :: Vector2D where
  "origin = \<lparr>x_coord = 0, y_coord = 0\<rparr>"

definition cell :: "string \<Rightarrow> int \<Rightarrow> real \<Rightarrow> real \<Rightarrow> Player" where
  "cell u team m r =
     \<lparr>pos = origin, radius = r, mass = m, player_id = u, userId = u, teamNo = team,
      velocity = origin, inputAxes = origin, boost = False, lastBoostTime = 0,
      isDead = False, kills = 0\<rparr>"

definition quiet_world :: World where
  "quiet_world = \<lparr>clock = sconst 0, randoms = sconst 0, uuids = sconst ''id''\<rparr>"

text \<open>Two players, a buy-in of 1000 cents, a rake of 8 percent and no cap.\<close>

definition example_config :: "PayoutModel \<Rightarrow> MatchConfig" where
  "example_config model =
     \<lparr>matchId = ''m1'', lobbyId = ''l1'', mode = SOLO, buyInCents = 1000, payoutModel = model,
      rakeBps = 800, rakeCapCents = None, seed = ''00'', nonce = ''00'', commit = ''c'',
      mapRadius = 1000,
      players_cfg = [\<lparr>pd_userId = ''A'', pd_teamNo = 0\<rparr>, \<lparr>pd_userId = ''B'', pd_teamNo = 0\<rparr>]\<rparr>"

definition example_match :: "PayoutModel \<Rightarrow> real \<Rightarrow> real \<Rightarrow> Match" where
  "example_match model massA massB =
     \<lparr>config = example_config model, state = SETTLEMENT, tick = 0, startTime = 0,
      countdownStartTime = 0,
      players = [cell ''A'' 0 massA (massToRadius massA), cell ''B'' 0 massB (massToRadius massB)],
      pellets = [], fogRadius = 1000, growthCap = 5000, events = []\<rparr>"

subsection \<open>Auxiliary notions used in the proofs\<close>



definition capped :: "real \<Rightarrow> Player list \<Rightarrow> bool" where
  "capped cap ps = (\<forall>p\<in>set ps. mass p \<le> cap)"

text \<open>
  A match on a map of radius 1 with one player, and a world in which the clock reads 0 at
  the countdown, 10000 at the first tick and at the start of the match, and 10033 from
  the second tick on; every call of \<open>uuidv4()\<close> returns a string of its own, and every
  call of \<open>Math.random()\<close> returns \<open>r\<close>.
\<close>

definition tiny_config :: MatchConfig where
  "tiny_config =
     \<lparr>matchId = ''m1'', lobbyId = ''l1'', mode = SOLO, buyInCents = 1000,
      payoutModel = WINNER_TAKE_ALL, rakeBps = 800, rakeCapCents = None, seed = ''00'',
      nonce = ''00'', commit = ''c'', mapRadius = 1,
      players_cfg = [\<lparr>pd_userId = ''A'', pd_teamNo = 0\<rparr>]\<rparr>"

definition tiny_world :: "real \<Rightarrow> World" where
  "tiny_world r =
     \<lparr>clock = 0 ## 10000 ## 10000 ## sconst 10033,
      randoms = sconst r,
      uuids = smap (\<lambda>n. replicate n CHR ''u'') (fromN 0)\<rparr>"

text \<open>The match is made, the countdown is started, and \<open>update\<close> is called twice.\<close>

definition tiny_run :: "real \<Rightarrow> Match" where
  "tiny_run r =
     (let (m0, w1) = new_Match tiny_config (tiny_world r);
          (m1, w2) = startCountdown m0 w1;
          (m2, w3) = update m1 w2;
          (m3, w4) = update m2 w3
      in m3)"

text \<open>
  For the run on the map of radius 1: a pellet as \<open>spawnPellet\<close> makes it there, the
  one player as \<open>initializePlayers\<close> makes it, standing at \<open>sp\<close>, and the world of the run
  with the identifiers that are left.
\<close>

definition reachable_pellet :: "Pellet \<Rightarrow> bool" where
  "reachable_pellet q \<longleftrightarrow>
     (x_coord (pos q))\<^sup>2 + (y_coord (pos q))\<^sup>2 \<le> 1 \<and> radius q = 1 \<and> \<not> consumed q"

definition tiny_player :: "Vector2D \<Rightarrow> string \<Rightarrow> Player" where
  "tiny_player sp i =
     \<lparr>pos = sp, radius = sqrt 10, mass = 10, player_id = i, userId = ''A'', teamNo = 0,
      velocity = \<lparr>x_coord = 0, y_coord = 0\<rparr>, inputAxes = \<lparr>x_coord = 0, y_coord = 0\<rparr>,
      boost = False, lastBoostTime = 0, isDead = False, kills = 0\<rparr>"

definition tw :: "real \<Rightarrow> string stream \<Rightarrow> World" where
  "tw r U = \<lparr>clock = 0 ## 10000 ## 10000 ## sconst 10033, randoms = sconst r, uuids = U\<rparr>"

section \<open>The store (schema.sql) and its statements\<close>

datatype KYCStatus = KYC_NONE | KYC_PENDING | KYC_APPROVED | KYC_REJECTED

datatype WalletTransactionType =
  DEPOSIT | WITHDRAWAL | ESCROW_LOCK | ESCROW_RELEASE | PAYOUT | RAKE | REFUND

datatype WalletTransactionStatus = TX_PENDING | TX_COMPLETED | TX_FAILED | TX_CANCELLED

text \<open>
  What a service call can throw: an \<open>Error\<close> with its message, or an error of the
  database, raised by a constraint of the schema or by a parameter that does not fit
  its column.
\<close>

datatype db_error =
    UniqueViolation
  | ForeignKeyViolation
  | CheckViolation
  | IntegerOutOfRange
  | InvalidInputSyntax

datatype error = Error string | DbError db_error

record Wallet =
  available_cents :: int
  escrow_cents :: int
  version :: int

record WalletTx =
  tx_id :: string
  tx_user_id :: string
  tx_type :: WalletTransactionType
  amount_cents :: int
  tx_status :: WalletTransactionStatus
  tx_ref :: string
  idempotency_key :: "string option"

record Lobby =
  lobby_mode :: GameMode
  buy_in_cents :: int
  lobby_payout_model :: PayoutModel
  lobby_state :: LobbyState
  rake_bps :: int
  rake_cap_cents :: "int option"

record LobbyPlayer =
  lp_lobby_id :: string
  lp_user_id :: string
  team_no :: int

text \<open>
  The tables the ledger and the lobby service touch. \<open>kyc_status\<close> is the one column of
  \<open>profiles\<close> that is read. Timestamps are left out. The columns are \<open>BIGINT\<close> and \<open>INT\<close>;
  the model uses unbounded integers and writes out the ranges that a caller can leave:
  \<open>team_no\<close> in \<open>joinLobby\<close>, and the amount and the sums of \<open>deposit\<close>.
\<close>

record Db =
  users :: "string set"
  kyc_status :: "string \<rightharpoonup> KYCStatus"
  wallets :: "string \<rightharpoonup> Wallet"
  wallet_tx :: "WalletTx list"
  lobbies :: "string \<rightharpoonup> Lobby"
  lobby_players :: "LobbyPlayer list"

text \<open>
  \<open>INSERT INTO wallet_tx\<close>: the primary key \<open>id\<close>, the foreign key \<open>user_id\<close> into
  \<open>users\<close>, and \<open>idempotency_key TEXT UNIQUE\<close> (any number of rows may have no key).
\<close>

definition insert_wallet_tx :: "WalletTx \<Rightarrow> Db \<Rightarrow> error + Db" where
  "insert_wallet_tx row db =
     (if tx_id row \<in> set (map tx_id (wallet_tx db)) then Inl (DbError UniqueViolation)
      else if tx_user_id row \<notin> users db then Inl (DbError ForeignKeyViolation)
      else if idempotency_key row \<noteq> None
              \<and> idempotency_key row \<in> set (map idempotency_key (wallet_tx db))
      then Inl (DbError UniqueViolation)
      else Inr (db\<lparr>wallet_tx := wallet_tx db @ [row]\<rparr>))"

text \<open>
  \<open>UPDATE wallets SET ... WHERE user_id = $n\<close>: no row, no change; otherwise the new
  row must pass \<open>CHECK (available_cents >= 0)\<close> and \<open>CHECK (escrow_cents >= 0)\<close>.
\<close>

definition update_wallet :: "string \<Rightarrow> (Wallet \<Rightarrow> Wallet) \<Rightarrow> Db \<Rightarrow> error + Db" where
  "update_wallet uid f db =
     (case wallets db uid of
        None \<Rightarrow> Inr db
      | Some w \<Rightarrow>
          if available_cents (f w) < 0 \<or> escrow_cents (f w) < 0 then Inl (DbError CheckViolation)
          else Inr (db\<lparr>wallets := (wallets db)(uid \<mapsto> f w)\<rparr>))"


text \<open>
  \<open>INSERT INTO lobby_players\<close>: the foreign keys into \<open>lobbies\<close> and \<open>users\<close>, the primary
  key \<open>(lobby_id, user_id)\<close>, and the range of \<open>team_no INT\<close>.
\<close>

definition insert_lobby_player :: "LobbyPlayer \<Rightarrow> Db \<Rightarrow> error + Db" where
  "insert_lobby_player row db =
     (if team_no row < - 2147483648 \<or> 2147483647 < team_no row then Inl (DbError IntegerOutOfRange)
      else if lobbies db (lp_lobby_id row) = None \<or> lp_user_id row \<notin> users db
      then Inl (DbError ForeignKeyViolation)
      else if (lp_lobby_id row, lp_user_id row)
                \<in> set (map (\<lambda>r. (lp_lobby_id r, lp_user_id r)) (lobby_players db))
      then Inl (DbError UniqueViolation)
      else Inr (db\<lparr>lobby_players := lobby_players db @ [row]\<rparr>))"

text \<open>
  Modelled from the spec: \<open>db.transaction\<close> (db/pool.ts is not among the sources). The
  spec has every ledger operation as one atomic commit that rolls back fully on any
  failure: the callback runs on a connection of its own; when it returns, its writes
  are committed; when it throws, they are undone and the error is thrown on.
\<close>

definition transaction :: "(Db \<Rightarrow> error + 'a \<times> Db) \<Rightarrow> Db \<Rightarrow> (error + 'a) \<times> Db" where
  "transaction f db = (case f db of Inl e \<Rightarrow> (Inl e, db) | Inr (a, db') \<Rightarrow> (Inr a, db'))"

section \<open>The ledger (class WalletService)\<close>









definition lockEscrow :: "string \<Rightarrow> int \<Rightarrow> string \<Rightarrow> string \<Rightarrow> Db \<Rightarrow> (error + unit) \<times> Db" where
  "lockEscrow uid amountCents matchRef newId db =
     (if amountCents \<le> 0 then (Inl (Error ''Escrow amount must be positive''), db)
      else transaction (\<lambda>db.
        case wallets db uid of
          None \<Rightarrow> Inl (Error ''Insufficient balance for buy-in'')
        | Some w \<Rightarrow>
            if available_cents w < amountCents then Inl (Error ''Insufficient balance for buy-in'')
            else
              (case update_wallet uid
                      (\<lambda>w. w\<lparr>available_cents := available_cents w - amountCents,
                              escrow_cents := escrow_cents w + amountCents,
                              version := version w + 1\<rparr>) db of
                 Inl e \<Rightarrow> Inl e
               | Inr db1 \<Rightarrow>
                   (case insert_wallet_tx
                           \<lparr>tx_id = newId, tx_user_id = uid, tx_type = ESCROW_LOCK,
                            amount_cents = amountCents, tx_status = TX_COMPLETED, tx_ref = matchRef,
                            idempotency_key = None\<rparr> db1 of
                      Inl e \<Rightarrow> Inl e
                    | Inr db2 \<Rightarrow> Inr ((), db2)))) db)"


definition HOUSE_USER_ID :: string where
  "HOUSE_USER_ID = ''00000000-0000-0000-0000-000000000000''"

text \<open>
  \<open>settleMatch\<close> passes the quotient \<open>totalEscrow / payouts.length\<close> as the amount to
  take from \<open>escrow_cents\<close>, a \<open>BIGINT\<close> column: a quotient that is not an integer is
  refused by the database.
\<close>

definition escrow_share :: "int \<Rightarrow> nat \<Rightarrow> error + int" where
  "escrow_share totalEscrow n =
     (if int n dvd totalEscrow then Inr (totalEscrow div int n) else Inl (DbError InvalidInputSyntax))"

fun settle_loop :: "string \<Rightarrow> int \<Rightarrow> nat \<Rightarrow> (string \<times> int) list \<Rightarrow> string stream \<Rightarrow> Db
                     \<Rightarrow> error + (string stream \<times> Db)" where
  "settle_loop matchRef totalEscrow n [] ids db = Inr (ids, db)"
| "settle_loop matchRef totalEscrow n ((uid, payout) # rest) ids db =
     (case escrow_share totalEscrow n of
        Inl e \<Rightarrow> Inl e
      | Inr share \<Rightarrow>
          (case update_wallet uid
                  (\<lambda>w. w\<lparr>escrow_cents := escrow_cents w - share,
                          available_cents := available_cents w + payout,
                          version := version w + 1\<rparr>) db of
             Inl e \<Rightarrow> Inl e
           | Inr db1 \<Rightarrow>
               (case insert_wallet_tx
                       \<lparr>tx_id = shd ids, tx_user_id = uid, tx_type = PAYOUT,
                        amount_cents = payout, tx_status = TX_COMPLETED, tx_ref = matchRef,
                        idempotency_key = None\<rparr> db1 of
                  Inl e \<Rightarrow> Inl e
                | Inr db2 \<Rightarrow> settle_loop matchRef totalEscrow n rest (stl ids) db2)))"

definition settleMatch :: "string \<Rightarrow> (string \<times> int) list \<Rightarrow> int \<Rightarrow> string stream \<Rightarrow> Db \<Rightarrow> (error + unit) \<times> Db" where
  "settleMatch matchRef payouts rakeCents ids db =
     transaction (\<lambda>db.
       let totalPayout = foldl (\<lambda>sum p. sum + snd p) 0 payouts;
           totalEscrow = totalPayout + rakeCents
       in case settle_loop matchRef totalEscrow (length payouts) payouts ids db of
            Inl e \<Rightarrow> Inl e
          | Inr (ids1, db1) \<Rightarrow>
              (case insert_wallet_tx
                      \<lparr>tx_id = shd ids1, tx_user_id = HOUSE_USER_ID, tx_type = RAKE,
                       amount_cents = rakeCents, tx_status = TX_COMPLETED, tx_ref = matchRef,
                       idempotency_key = None\<rparr> db1 of
                 Inl e \<Rightarrow> Inl e
               | Inr db2 \<Rightarrow> Inr ((), db2))) db"

section \<open>The lobby service (joinLobby)\<close>

record JoinResult =
  success :: bool
  wsToken :: string

definition getMaxPlayers :: "GameMode \<Rightarrow> nat" where
  "getMaxPlayers m = (case m of SOLO \<Rightarrow> 20 | DUO \<Rightarrow> 20 | SQUAD \<Rightarrow> 20)"

text \<open>
  \<open>joinLobby\<close> runs in a transaction of its own, and inside it calls
  \<open>walletService.lockEscrow\<close>, which does not take the caller's connection: it opens
  its transaction with \<open>db.transaction\<close> and has committed when it returns. Up to the
  insert into \<open>lobby_players\<close> the outer transaction has only read. So when the insert
  fails, the rollback of the outer transaction has nothing to undo, and the store is
  left as \<open>lockEscrow\<close> committed it.
\<close>

definition joinLobby :: "string \<Rightarrow> string \<Rightarrow> int \<Rightarrow> string \<Rightarrow> string \<Rightarrow> Db \<Rightarrow> (error + JoinResult) \<times> Db" where
  "joinLobby lid uid team newTxId newToken db =
     (case lobbies db lid of
        None \<Rightarrow> (Inl (Error ''Lobby not found''), db)
      | Some lobbyData \<Rightarrow>
          if lobby_state lobbyData \<noteq> WAITING then (Inl (Error ''Lobby is not accepting players''), db)
          else if filter (\<lambda>r. lp_lobby_id r = lid \<and> lp_user_id r = uid) (lobby_players db) \<noteq> []
          then (Inl (Error ''Already in lobby''), db)
          else if length (filter (\<lambda>r. lp_lobby_id r = lid) (lobby_players db))
                    \<ge> getMaxPlayers (lobby_mode lobbyData)
          then (Inl (Error ''Lobby is full''), db)
          else
            (case lockEscrow uid (buy_in_cents lobbyData) lid newTxId db of
               (Inl e, db1) \<Rightarrow> (Inl e, db1)
             | (Inr u, db1) \<Rightarrow>
                 (case insert_lobby_player
                         \<lparr>lp_lobby_id = lid, lp_user_id = uid, team_no = team\<rparr> db1 of
                    Inl e \<Rightarrow> (Inl e, db1)
                  | Inr db2 \<Rightarrow> (Inr \<lparr>success = True, wsToken = newToken\<rparr>, db2))))"

subsection \<open>Concrete stores used in the worked examples\<close>

text \<open>
  Two users with 5000 cents each, the house account, and one open lobby with a buy-in
  of 1000 cents.
\<close>

definition example_db :: Db where
  "example_db =
     \<lparr>users = {''A'', ''B'', HOUSE_USER_ID},
      kyc_status = Map.empty,
      wallets = [''A'' \<mapsto> \<lparr>available_cents = 5000, escrow_cents = 0, version = 0\<rparr>,
                 ''B'' \<mapsto> \<lparr>available_cents = 5000, escrow_cents = 0, version = 0\<rparr>],
      wallet_tx = [],
      lobbies = [''L'' \<mapsto> \<lparr>lobby_mode = SOLO, buy_in_cents = 1000,
                              lobby_payout_model = PROPORTIONAL, lobby_state = WAITING,
                              rake_bps = 800, rake_cap_cents = None\<rparr>],
      lobby_players = []\<rparr>"

text \<open>The store after both users have joined the lobby.\<close>

definition joined_db :: Db where
  "joined_db =
     snd (joinLobby ''L'' ''B'' 0 ''t2'' ''w2'' (snd (joinLobby ''L'' ''A'' 0 ''t1'' ''w1'' example_db)))"

definition example_ids :: "string stream" where
  "example_ids = ''t3'' ## ''t4'' ## ''t5'' ## sconst ''t6''"


section \<open>The commitment (class ProvablyFairService)\<close>

subsection \<open>SHA-256\<close>

text \<open>
  \<open>createHash('sha256')\<close> is the hash of Node's \<open>crypto\<close> module, not code of the
  repository. It is modelled after FIPS 180-4, on 32-bit words kept as natural numbers
  with the reduction modulo \<open>2 ^ 32\<close> written out, and checked against the standard's
  test vector (\<open>sha256_abc\<close>).
\<close>

definition add32 :: "nat \<Rightarrow> nat \<Rightarrow> nat" where
  "add32 a b = (a + b) mod 4294967296"

definition rotr :: "nat \<Rightarrow> nat \<Rightarrow> nat" where
  "rotr n a = drop_bit n a + push_bit (32 - n) (take_bit n a)"

definition shr :: "nat \<Rightarrow> nat \<Rightarrow> nat" where
  "shr n a = drop_bit n a"

definition not32 :: "nat \<Rightarrow> nat" where
  "not32 a = 4294967295 - a"

definition Ch :: "nat \<Rightarrow> nat \<Rightarrow> nat \<Rightarrow> nat" where
  "Ch a b c = (a AND b) XOR (not32 a AND c)"

definition Maj :: "nat \<Rightarrow> nat \<Rightarrow> nat \<Rightarrow> nat" where
  "Maj a b c = (a AND b) XOR (a AND c) XOR (b AND c)"

definition Sigma0 :: "nat \<Rightarrow> nat" where
  "Sigma0 a = rotr 2 a XOR rotr 13 a XOR rotr 22 a"

definition Sigma1 :: "nat \<Rightarrow> nat" where
  "Sigma1 a = rotr 6 a XOR rotr 11 a XOR rotr 25 a"

definition sigma0 :: "nat \<Rightarrow> nat" where
  "sigma0 a = rotr 7 a XOR rotr 18 a XOR shr 3 a"

definition sigma1 :: "nat \<Rightarrow> nat" where
  "sigma1 a = rotr 17 a XOR rotr 19 a XOR shr 10 a"

definition K256 :: "nat list" where
  "K256 =
     [0x428a2f98, 0x71374491, 0xb5c0fbcf, 0xe9b5dba5, 0x3956c25b, 0x59f111f1, 0x923f82a4, 0xab1c5ed5]
   @ [0xd807aa98, 0x12835b01, 0x243185be, 0x550c7dc3, 0x72be5d74, 0x80deb1fe, 0x9bdc06a7, 0xc19bf174]
   @ [0xe49b69c1, 0xefbe4786, 0x0fc19dc6, 0x240ca1cc, 0x2de92c6f, 0x4a7484aa, 0x5cb0a9dc, 0x76f988da]
   @ [0x983e5152, 0xa831c66d, 0xb00327c8, 0xbf597fc7, 0xc6e00bf3, 0xd5a79147, 0x06ca6351, 0x14292967]
   @ [0x27b70a85, 0x2e1b2138, 0x4d2c6dfc, 0x53380d13, 0x650a7354, 0x766a0abb, 0x81c2c92e, 0x92722c85]
   @ [0xa2bfe8a1, 0xa81a664b, 0xc24b8b70, 0xc76c51a3, 0xd192e819, 0xd6990624, 0xf40e3585, 0x106aa070]
   @ [0x19a4c116, 0x1e376c08, 0x2748774c, 0x34b0bcb5, 0x391c0cb3, 0x4ed8aa4a, 0x5b9cca4f, 0x682e6ff3]
   @ [0x748f82ee, 0x78a5636f, 0x84c87814, 0x8cc70208, 0x90befffa, 0xa4506ceb, 0xbef9a3f7, 0xc67178f2]"

type_synonym hstate = "nat \<times> nat \<times> nat \<times> nat \<times> nat \<times> nat \<times> nat \<times> nat"

definition H0 :: hstate where
  "H0 = (0x6a09e667, 0xbb67ae85, 0x3c6ef372, 0xa54ff53a, 0x510e527f, 0x9b05688c, 0x1f83d9ab, 0x5be0cd19)"

text \<open>
  The message schedule is kept as a window of sixteen words: its head is \<open>W t\<close>, and
  \<open>slide\<close> drops the head and appends \<open>W (t + 16)\<close>.
\<close>

definition next_w :: "nat \<Rightarrow> nat \<Rightarrow> nat \<Rightarrow> nat \<Rightarrow> nat" where
  "next_w w0 w1 w9 w14 = add32 (add32 (add32 (sigma1 w14) w9) (sigma0 w1)) w0"

fun slide :: "nat list \<Rightarrow> nat list" where
  "slide (w0 # w1 # w2 # w3 # w4 # w5 # w6 # w7 # w8 # w9 # w10 # w11 # w12 # w13 # w14 # ws) =
     (w1 # w2 # w3 # w4 # w5 # w6 # w7 # w8 # w9 # w10 # w11 # w12 # w13 # w14 # ws)
       @ [next_w w0 w1 w9 w14]"
| "slide ws = ws"

definition T1 :: "nat \<Rightarrow> nat \<Rightarrow> nat \<Rightarrow> nat \<Rightarrow> nat \<Rightarrow> nat \<Rightarrow> nat" where
  "T1 e f g h k w = add32 (add32 (add32 (add32 h (Sigma1 e)) (Ch e f g)) k) w"

definition T2 :: "nat \<Rightarrow> nat \<Rightarrow> nat \<Rightarrow> nat" where
  "T2 a b c = add32 (Sigma0 a) (Maj a b c)"

fun shift_state :: "hstate \<Rightarrow> nat \<Rightarrow> nat \<Rightarrow> hstate" where
  "shift_state (a, b, c, d, e, f, g, h) t1 t2 = (add32 t1 t2, a, b, c, add32 d t1, e, f, g)"

fun round_step :: "hstate \<Rightarrow> nat \<Rightarrow> nat \<Rightarrow> hstate" where
  "round_step (a, b, c, d, e, f, g, h) k w =
     shift_state (a, b, c, d, e, f, g, h) (T1 e f g h k w) (T2 a b c)"

fun rounds :: "hstate \<Rightarrow> nat list \<Rightarrow> nat list \<Rightarrow> hstate" where
  "rounds s win [] = s"
| "rounds s win (k # ks) = rounds (round_step s k (hd win)) (slide win) ks"

fun add_state :: "hstate \<Rightarrow> hstate \<Rightarrow> hstate" where
  "add_state (a, b, c, d, e, f, g, h) (a', b', c', d', e', f', g', h') =
     (add32 a a', add32 b b', add32 c c', add32 d d', add32 e e', add32 f f', add32 g g',
      add32 h h')"

definition compress :: "hstate \<Rightarrow> nat list \<Rightarrow> hstate" where
  "compress hs blk = add_state hs (rounds hs blk K256)"

text \<open>Padding, and the message as big-endian words in blocks of sixteen.\<close>

definition be64 :: "nat \<Rightarrow> nat list" where
  "be64 n = map (\<lambda>i. (n div 256 ^ (7 - i)) mod 256) [0..<8]"

definition pad :: "nat list \<Rightarrow> nat list" where
  "pad m = m @ [128] @ replicate ((64 - (length m + 9) mod 64) mod 64) 0 @ be64 (8 * length m)"

fun words_of :: "nat list \<Rightarrow> nat list" where
  "words_of (a # b # c # d # rest) = (((a * 256 + b) * 256 + c) * 256 + d) # words_of rest"
| "words_of _ = []"

fun hash_blocks :: "hstate \<Rightarrow> nat list \<Rightarrow> hstate" where
  "hash_blocks hs (w0 # w1 # w2 # w3 # w4 # w5 # w6 # w7 # w8 # w9 # w10 # w11 # w12 # w13 # w14 # w15 # rest) =
     hash_blocks (compress hs [w0, w1, w2, w3, w4, w5, w6, w7, w8, w9, w10, w11, w12, w13, w14, w15]) rest"
| "hash_blocks hs _ = hs"

definition word_bytes :: "nat \<Rightarrow> nat list" where
  "word_bytes w = [(w div 16777216) mod 256, (w div 65536) mod 256, (w div 256) mod 256, w mod 256]"

fun state_bytes :: "hstate \<Rightarrow> nat list" where
  "state_bytes (a, b, c, d, e, f, g, h) =
     word_bytes a @ word_bytes b @ word_bytes c @ word_bytes d @ word_bytes e @ word_bytes f
       @ word_bytes g @ word_bytes h"

definition sha256 :: "nat list \<Rightarrow> nat list" where
  "sha256 m = state_bytes (hash_blocks H0 (words_of (pad m)))"

subsection \<open>Strings, bytes and hexadecimal digits\<close>

text \<open>
  \<open>hash.update(string)\<close> hashes the UTF-8 encoding of the string. A string of the model is
  a list of code units below 256; a unit below 128 is one byte, another one is two.
\<close>

definition utf8 :: "string \<Rightarrow> nat list" where
  "utf8 s = concat (map (\<lambda>c. let n = of_char c :: nat
                             in if n < 128 then [n] else [192 + n div 64, 128 + n mod 64]) s)"

definition hexdigit :: "nat \<Rightarrow> char" where
  "hexdigit n = ''0123456789abcdef'' ! n"

definition toHex :: "nat list \<Rightarrow> string" where
  "toHex bs = concat (map (\<lambda>b. [hexdigit (b div 16), hexdigit (b mod 16)]) bs)"

subsection \<open>createCommit, verifyCommitment, generateCommitment\<close>

definition createCommit :: "string \<Rightarrow> string \<Rightarrow> string" where
  "createCommit sd nc = toHex (sha256 (utf8 (sd @ nc)))"

definition verifyCommitment :: "string \<Rightarrow> string \<Rightarrow> string \<Rightarrow> bool" where
  "verifyCommitment sd nc cm = (let computed = createCommit sd nc in computed = cm)"

text \<open>
  \<open>generateCommitment\<close> draws 32 and 16 random bytes; they are the arguments here. It
  returns the seed, the nonce and the commitment.
\<close>

definition generateCommitment :: "nat list \<Rightarrow> nat list \<Rightarrow> string \<times> string \<times> string" where
  "generateCommitment seedBytes nonceBytes =
     (let sd = toHex seedBytes; nc = toHex nonceBytes
      in (sd, nc, createCommit sd nc))"

text \<open>Scenario S4: the seed is \<open>"00"\<close> 32 times, the nonce is \<open>"00"\<close> 16 times.\<close>

definition S4_seed :: string where
  "S4_seed = concat (replicate 32 ''00'')"

definition S4_nonce :: string where
  "S4_nonce = concat (replicate 16 ''00'')"

text \<open>Bit \<open>k\<close> of the character at index \<open>i\<close> flipped.\<close>

definition flip_bit_at :: "nat \<Rightarrow> nat \<Rightarrow> string \<Rightarrow> string" where
  "flip_bit_at i k s = s[i := char_of ((of_char (s ! i) :: nat) XOR 2 ^ k)]"

chapter \<open>Properties\<close>

section \<open>Properties of rounding to the nearest double\<close>

lemma round_half_even_cases: "round_half_even y = \<lfloor>y\<rfloor> \<or> round_half_even y = \<lfloor>y\<rfloor> + 1"
  by (simp add: round_half_even_def Let_def)

lemma round_half_even_err: "\<bar>of_int (round_half_even y) - y\<bar> \<le> 1 / 2"
  unfolding round_half_even_def Let_def by (auto; linarith)


lemma round_half_even_le: "y \<le> of_int z \<Longrightarrow> round_half_even y \<le> z"
proof -
  assume a: "y \<le> of_int z"
  show ?thesis
  proof (cases "y = of_int z")
    case True
    then show ?thesis by (simp add: round_half_even_def)
  next
    case False
    then have "y < of_int z" using a by simp
    then have "\<lfloor>y\<rfloor> < z" by (simp add: floor_less_iff)
    then show ?thesis using round_half_even_cases[of y] by linarith
  qed
qed

lemma fl_zero: "fl 0 = 0"
  by (simp add: fl_def)

text \<open>The binade of a positive number and the spacing of the doubles in it.\<close>

lemma fl_pos:
  assumes "0 < x"
  obtains e :: int and w :: real where "0 < w" "w * 2 ^ 52 = 2 powr of_int e"
    "2 powr of_int e \<le> x" "x < 2 * 2 powr of_int e"
    "fl x = of_int (round_half_even (x / w)) * w"
proof -
  define e where "e = \<lfloor>log 2 x\<rfloor>"
  define w :: real where "w = 2 powr of_int (e - 52)"
  have "2 powr of_int e \<le> x \<and> x < 2 powr of_int (e + 1)"
    using assms floor_log_eq_powr_iff[of x 2 e] by (simp add: e_def)
  then have b: "2 powr of_int e \<le> x" "x < 2 * 2 powr of_int e"
    by (simp_all add: powr_add)
  have f: "fl x = of_int (round_half_even (x / w)) * w"
    using assms by (simp add: fl_def e_def w_def Let_def)
  have w: "0 < w" "w * 2 ^ 52 = 2 powr of_int e"
    by (simp_all add: w_def powr_diff)
  show ?thesis using that[OF w b f] .
qed

lemma fl_rel_err:
  assumes "0 \<le> x"
  shows "\<bar>fl x - x\<bar> \<le> x / 2 ^ 53"
proof (cases "x = 0")
  case True
  then show ?thesis by (simp add: fl_zero)
next
  case False
  then have pos: "0 < x" using assms by simp
  obtain e :: int and w :: real where w: "0 < w" and we: "w * 2 ^ 52 = 2 powr of_int e"
    and e: "2 powr of_int e \<le> x"
    and f: "fl x = of_int (round_half_even (x / w)) * w"
    using fl_pos[OF pos] by blast
  have "fl x - x = (of_int (round_half_even (x / w)) - x / w) * w"
    using w by (simp add: f left_diff_distrib)
  then have "\<bar>fl x - x\<bar> = \<bar>of_int (round_half_even (x / w)) - x / w\<bar> * w"
    using w by (simp add: abs_mult)
  also have "\<dots> \<le> 1 / 2 * w"
    using round_half_even_err[of "x / w"] w by (intro mult_right_mono) auto
  also have "\<dots> = w * 2 ^ 52 / 2 ^ 53" by simp
  also have "\<dots> \<le> x / 2 ^ 53" unfolding we using e by (simp add: divide_right_mono)
  finally show ?thesis .
qed

lemma fl_nonneg:
  assumes "0 \<le> x"
  shows "0 \<le> fl x"
proof -
  have "x / 2 ^ 53 \<le> x" using assms by (simp add: field_simps)
  then show ?thesis using fl_rel_err[OF assms] by linarith
qed



lemma fl_eval:
  fixes x :: real and k :: nat
  assumes "2 ^ k \<le> x" "x < 2 ^ (k + 1)"
  shows "fl x = of_int (round_half_even (x * 2 ^ 52 / 2 ^ k)) * 2 ^ k / 2 ^ 52"
proof -
  have pos: "0 < x" using assms(1) by (smt (verit) zero_less_power)
  have "\<lfloor>log 2 x\<rfloor> = int k"
    using assms pos by (subst floor_log_eq_powr_iff) (auto simp: powr_realpow powr_add)
  then have e: "\<lfloor>log 2 \<bar>x\<bar>\<rfloor> - 52 = int k - 52" using pos by simp
  have p: "2 powr of_int (int k - 52) = (2::real) ^ k / 2 ^ 52"
    by (simp add: powr_diff powr_realpow)
  show ?thesis using pos unfolding fl_def e Let_def p by simp
qed





section \<open>Properties of the settlement arithmetic\<close>


lemma length_payouts_of: "length (payouts_of model n ranked) = length ranked"
  by (cases model) (simp_all add: payouts_of_def Let_def)

lemma payouts_calculateResults:
  "map payoutCents (calculateResults m) =
     payouts_of (payoutModel (config m)) (netPot_of (config m)) (sortedPlayers (players m))"
  by (rule nth_equalityI) (simp_all add: calculateResults_def Let_def length_payouts_of)













lemma upt_two: "[0..<2] = [0, 1]"
  by (simp add: upt_rec numeral_2_eq_2)







lemma fl_sum_nonneg:
  assumes "\<forall>p\<in>set xs. 0 \<le> f p" "0 \<le> a"
  shows "0 \<le> foldl (\<lambda>s p. fl (s + f p)) a xs"
  using assms by (induction xs arbitrary: a) (simp_all add: fl_nonneg)









lemma proportional_zero:
  assumes "\<forall>p\<in>set ranked. finalMass p = 0"
  shows "payouts_of PROPORTIONAL n ranked = map (\<lambda>p. 0) ranked"
proof -
  have "foldl (\<lambda>sum p. fl (sum + finalMass p)) 0 ranked = 0"
    using assms by (induction ranked) (simp_all add: fl_zero)
  then show ?thesis by (simp add: payouts_of_def)
qed


text \<open>The doubles of the worked examples.\<close>

lemma fl_160: "fl 160 = 160"
  by (subst fl_eval[where k = 7]) (simp_all add: round_half_even_def)



lemma fl_200: "fl 200 = 200"
  by (subst fl_eval[where k = 7]) (simp_all add: round_half_even_def)

lemma fl_250: "fl 250 = 250"
  by (subst fl_eval[where k = 7]) (simp_all add: round_half_even_def)



lemma example_config_simps:
  "buyInCents (example_config model) = 1000"
  "rakeBps (example_config model) = 800"
  "rakeCapCents (example_config model) = None"
  "payoutModel (example_config model) = model"
  "length (players_cfg (example_config model)) = 2"
  "pot_of (example_config model) = 2000"
  "rake_of (example_config model) = 160"
  "netPot_of (example_config model) = 1840"
  by (simp_all add: example_config_def pot_of_def rake_of_def netPot_of_def fl_160)

lemma example_sorted:
  "b \<le> a \<Longrightarrow> map finalMass (sortedPlayers (players (example_match model a b))) = [a, b]"
  by (simp add: example_match_def sortedPlayers_def cell_def)



section \<open>Properties of the physics kernel\<close>

lemma updatePlayer_mass: "mass (fst (updatePlayer p dt w)) = mass p"
  by (simp add: updatePlayer_def Let_def split: prod.splits)

lemma eatPlayer_eater_mass:
  "mass e \<le> cap \<Longrightarrow> mass (fst (eatPlayer e t cap)) \<le> cap"
  by (simp add: eatPlayer_def Let_def)

lemma eatPlayer_target_mass:
  "mass t \<le> cap \<Longrightarrow> 0 \<le> cap \<Longrightarrow> mass (fst (snd (eatPlayer e t cap))) \<le> cap"
  by (simp add: eatPlayer_def Let_def)

lemma eatPellet_mass:
  "mass p \<le> cap \<Longrightarrow> mass (fst (eatPellet p q cap)) \<le> cap"
  by (simp add: eatPellet_def Let_def)

lemma applyFogDamage_mass:
  "mass p \<le> cap \<Longrightarrow> 0 \<le> cap \<Longrightarrow> 0 \<le> dt \<Longrightarrow> mass (applyFogDamage p fogR dt) \<le> cap"
  by (simp add: applyFogDamage_def Let_def)

lemma capped_update: "capped cap ps \<Longrightarrow> mass p \<le> cap \<Longrightarrow> capped cap (ps[i := p])"
  unfolding capped_def by (metis insert_iff set_update_subset_insert subsetD)

lemma capped_nth: "capped cap ps \<Longrightarrow> i < length ps \<Longrightarrow> mass (ps ! i) \<le> cap"
  unfolding capped_def by simp

lemma apply_op_capped:
  assumes "capped cap ps" "0 \<le> cap" "op_time_ok opn"
  shows "capped cap (fst (apply_op cap opn (ps, w)))"
proof (cases opn)
  case (UpdatePlayer i dt)
  then show ?thesis using assms
    by (auto simp: split_def Let_def intro!: capped_update simp: updatePlayer_mass capped_nth)
next
  case (EatPlayer i j)
  then show ?thesis using assms
    by (auto simp: split_def Let_def intro!: capped_update eatPlayer_eater_mass eatPlayer_target_mass capped_nth)
next
  case (EatPellet i q)
  then show ?thesis using assms
    by (auto simp: split_def Let_def intro!: capped_update eatPellet_mass capped_nth)
next
  case (ApplyFogDamage i fogR dt)
  then show ?thesis using assms
    by (auto simp: split_def Let_def intro!: capped_update applyFogDamage_mass capped_nth)
qed

lemma run_ops_capped:
  "capped cap (fst s) \<Longrightarrow> 0 \<le> cap \<Longrightarrow> \<forall>opn\<in>set ops. op_time_ok opn \<Longrightarrow> capped cap (fst (run_ops cap ops s))"
proof (induction ops arbitrary: s)
  case Nil
  then show ?case by simp
next
  case (Cons opn ops)
  obtain ps w where s: "s = (ps, w)" by (cases s)
  have "capped cap (fst (apply_op cap opn (ps, w)))"
    using Cons.prems s by (intro apply_op_capped) auto
  then show ?case using Cons s by simp
qed

lemma CSR_value: "COLLISION_SIZE_RATIO = 5179139571476070 / 4503599627370496"
  unfolding COLLISION_SIZE_RATIO_def
  by (subst fl_eval[where k = 0]) (simp_all add: round_half_even_def)

lemma fl_100: "fl (100 * COLLISION_SIZE_RATIO) = 8092405580431359 / 70368744177664"
  unfolding CSR_value
  by (subst fl_eval[where k = 6]) (simp_all add: round_half_even_def)

lemma fl_1: "fl (1 * COLLISION_SIZE_RATIO) = 5179139571476070 / 4503599627370496"
  unfolding CSR_value
  by (subst fl_eval[where k = 0]) (simp_all add: round_half_even_def)

lemma fl_20: "fl (20 * COLLISION_SIZE_RATIO) = 23"
  unfolding CSR_value
  by (subst fl_eval[where k = 4]) (simp_all add: round_half_even_def)

section \<open>Claims about the physics kernel\<close>

lemma nonneg_update:
  "\<forall>p\<in>set ps. 0 \<le> mass p \<Longrightarrow> 0 \<le> mass q \<Longrightarrow> \<forall>p\<in>set (ps[i := q]). 0 \<le> mass p"
  by (metis insert_iff set_update_subset_insert subsetD)

lemma eatPlayer_eater_nonneg:
  "0 \<le> mass e \<Longrightarrow> 0 \<le> mass t \<Longrightarrow> 0 \<le> cap \<Longrightarrow> 0 \<le> mass (fst (eatPlayer e t cap))"
  by (simp add: eatPlayer_def Let_def)

lemma eatPlayer_target_nonneg:
  "0 \<le> mass t \<Longrightarrow> 0 \<le> mass (fst (snd (eatPlayer e t cap)))"
  by (simp add: eatPlayer_def Let_def)

lemma eatPellet_nonneg:
  "0 \<le> mass p \<Longrightarrow> 0 \<le> cap \<Longrightarrow> 0 \<le> mass (fst (eatPellet p q cap))"
  by (simp add: eatPellet_def Let_def PELLET_MASS_def)

lemma applyFogDamage_nonneg:
  "0 \<le> mass p \<Longrightarrow> 0 \<le> mass (applyFogDamage p fogR dt)"
  by (simp add: applyFogDamage_def Let_def)

lemma run_ops_mass_nonneg_step:
  assumes "\<forall>p\<in>set ps. 0 \<le> mass p" "0 \<le> cap"
  shows "\<forall>p\<in>set (fst (apply_op cap opn (ps, w))). 0 \<le> mass p"
proof (cases opn)
  case (UpdatePlayer i dt)
  show ?thesis
  proof (cases "i < length ps")
    case True
    have "0 \<le> mass (fst (updatePlayer (ps ! i) dt w))"
      using assms(1) True by (simp add: updatePlayer_mass)
    then show ?thesis using UpdatePlayer True nonneg_update[OF assms(1)]
      by (simp add: split_def Let_def)
  next
    case False
    then show ?thesis using UpdatePlayer assms(1) by simp
  qed
next
  case (EatPlayer i j)
  show ?thesis
  proof (cases "i < length ps \<and> j < length ps \<and> i \<noteq> j")
    case True
    have e: "0 \<le> mass (fst (eatPlayer (ps ! i) (ps ! j) cap))"
      using assms True by (intro eatPlayer_eater_nonneg) auto
    have t: "0 \<le> mass (fst (snd (eatPlayer (ps ! i) (ps ! j) cap)))"
      using assms True by (intro eatPlayer_target_nonneg) auto
    have "\<forall>p\<in>set (ps[i := fst (eatPlayer (ps ! i) (ps ! j) cap)]). 0 \<le> mass p"
      using assms(1) e by (rule nonneg_update)
    then have "\<forall>p\<in>set (ps[i := fst (eatPlayer (ps ! i) (ps ! j) cap),
                            j := fst (snd (eatPlayer (ps ! i) (ps ! j) cap))]). 0 \<le> mass p"
      using t by (rule nonneg_update)
    then show ?thesis using EatPlayer True by (simp add: split_def Let_def)
  next
    case False
    then show ?thesis using EatPlayer assms(1) by auto
  qed
next
  case (EatPellet i q)
  show ?thesis
  proof (cases "i < length ps")
    case True
    have "0 \<le> mass (fst (eatPellet (ps ! i) q cap))"
      using assms True by (intro eatPellet_nonneg) auto
    then show ?thesis using EatPellet True nonneg_update[OF assms(1)]
      by (simp add: split_def Let_def)
  next
    case False
    then show ?thesis using EatPellet assms(1) by simp
  qed
next
  case (ApplyFogDamage i fogR dt)
  show ?thesis
  proof (cases "i < length ps")
    case True
    have "0 \<le> mass (applyFogDamage (ps ! i) fogR dt)"
      using assms True by (intro applyFogDamage_nonneg) auto
    then show ?thesis using ApplyFogDamage True nonneg_update[OF assms(1)]
      by simp
  next
    case False
    then show ?thesis using ApplyFogDamage assms(1) by simp
  qed
qed

lemma run_ops_mass_nonneg:
  "\<forall>p\<in>set (fst s). 0 \<le> mass p \<Longrightarrow> 0 \<le> cap \<Longrightarrow> \<forall>p\<in>set (fst (run_ops cap ops s)). 0 \<le> mass p"
proof (induction ops arbitrary: s)
  case Nil
  then show ?case by simp
next
  case (Cons opn ops)
  obtain ps w where s: "s = (ps, w)" by (cases s)
  have "\<forall>p\<in>set (fst (apply_op cap opn (ps, w))). 0 \<le> mass p"
    using Cons.prems s by (intro run_ops_mass_nonneg_step) auto
  then show ?case using Cons s by simp
qed

text \<open>
  Claim C7. A match with buy-in \<open>buyIn\<close> has the growth cap \<open>buyIn * 5\<close>
  (\<open>GROWTH_CAP_MULTIPLIER\<close>). When every cell starts with the initial mass 10 and the cap
  is at least 10, then after any sequence of \<open>updatePlayer\<close>, \<open>eatPlayer\<close>, \<open>eatPellet\<close>
  and \<open>applyFogDamage\<close> on these cells, run with time steps that are not negative, the
  mass of every cell is at most the growth cap.
\<close>

theorem mass_never_exceeds_growth_cap:
  assumes "cap = real_of_int buyIn * GROWTH_CAP_MULTIPLIER"
    and "INITIAL_PLAYER_MASS \<le> cap"
    and "\<forall>p\<in>set ps. mass p = INITIAL_PLAYER_MASS"
    and "\<forall>opn\<in>set ops. op_time_ok opn"
  shows "\<forall>p\<in>set (fst (run_ops cap ops (ps, w))). mass p \<le> cap"
proof -
  have "capped cap (fst (ps, w))" using assms(2,3) by (simp add: capped_def)
  moreover have "0 \<le> cap" using assms(2) by (simp add: INITIAL_PLAYER_MASS_def)
  ultimately have "capped cap (fst (run_ops cap ops (ps, w)))"
    using assms(4) by (rule run_ops_capped)
  then show ?thesis by (simp add: capped_def)
qed

theorem mass_never_exceeds_growth_cap_witness:
  "(5000::real) = real_of_int 1000 * GROWTH_CAP_MULTIPLIER
   \<and> INITIAL_PLAYER_MASS \<le> 5000
   \<and> list_all (\<lambda>p. mass p = INITIAL_PLAYER_MASS) [cell ''A'' 0 10 (massToRadius 10), cell ''B'' 0 10 (massToRadius 10)]
   \<and> list_all op_time_ok
        [UpdatePlayer 0 (1 / TICK_RATE), EatPlayer 0 1, ApplyFogDamage 1 0 (1 / TICK_RATE),
         EatPellet 0 \<lparr>pos = origin, radius = 1, mass = 1, pellet_id = ''p'', consumed = False\<rparr>]
   \<and> list_all (\<lambda>p. mass p \<le> 5000)
        (fst (run_ops 5000
           [UpdatePlayer 0 (1 / TICK_RATE), EatPlayer 0 1, ApplyFogDamage 1 0 (1 / TICK_RATE),
            EatPellet 0 \<lparr>pos = origin, radius = 1, mass = 1, pellet_id = ''p'', consumed = False\<rparr>]
           ([cell ''A'' 0 10 (massToRadius 10), cell ''B'' 0 10 (massToRadius 10)], quiet_world)))"
proof -
  have a: "(5000::real) = real_of_int 1000 * GROWTH_CAP_MULTIPLIER"
    by (simp add: GROWTH_CAP_MULTIPLIER_def)
  have b: "INITIAL_PLAYER_MASS \<le> 5000" by (simp add: INITIAL_PLAYER_MASS_def)
  have c: "\<forall>p\<in>set [cell ''A'' 0 10 (massToRadius 10), cell ''B'' 0 10 (massToRadius 10)].
             mass p = INITIAL_PLAYER_MASS"
    by (simp add: cell_def INITIAL_PLAYER_MASS_def)
  have d: "\<forall>opn\<in>set [UpdatePlayer 0 (1 / TICK_RATE), EatPlayer 0 1, ApplyFogDamage 1 0 (1 / TICK_RATE),
         EatPellet 0 \<lparr>pos = origin, radius = 1, mass = 1, pellet_id = ''p'', consumed = False\<rparr>].
           op_time_ok opn"
    by (simp add: TICK_RATE_def)
  show ?thesis
    using a b c d mass_never_exceeds_growth_cap[OF a b c d, of quiet_world]
    by (simp only: list_all_iff)
qed

text \<open>
  Claim C9, as amended. \<open>canEat\<close> returns true exactly when both cells are alive, they
  do not share a team number greater than zero, and the eater's radius is strictly
  greater than the double-precision product of the target's radius and 1.15. The
  comparison is strict, but against the rounded product: of two pairs of cells standing
  exactly at the ratio 1.15, one eats (radii 115 and 100) and one does not (radii 23 and
  20). Cells that share a negative team number are not protected.
\<close>

theorem canEat_iff:
  "canEat eater target \<longleftrightarrow>
     \<not> isDead eater \<and> \<not> isDead target
     \<and> \<not> (0 < teamNo eater \<and> teamNo eater = teamNo target)
     \<and> fl (radius target * COLLISION_SIZE_RATIO) < radius eater"
  by (simp add: canEat_def)

text \<open>
  The claim as stated fails twice: the cells of radius 115 and 100 stand exactly at the
  ratio 1.15 and the larger eats the smaller (the product \<open>100 * 1.15\<close> is rounded to
  a double below 115); and two cells of team \<open>-1\<close> share a team number that is not zero,
  and one eats the other.
\<close>

theorem canEat_counterexample:
  "canEat (cell ''a'' 0 13225 115) (cell ''b'' 0 10000 100)
   \<and> radius (cell ''a'' 0 13225 115) = 1.15 * radius (cell ''b'' 0 10000 100)
   \<and> canEat (cell ''a'' (-1) 100 10) (cell ''b'' (-1) 1 1)
   \<and> teamNo (cell ''a'' (-1) 100 10) = teamNo (cell ''b'' (-1) 1 1)
   \<and> teamNo (cell ''a'' (-1) 100 10) \<noteq> 0"
proof -
  have "fl (1 * COLLISION_SIZE_RATIO) < 10" unfolding fl_1 by simp
  then show ?thesis
    by (simp add: canEat_def cell_def fl_100)
qed

lemma canEat_exact_ratio_23_20:
  "\<not> canEat (cell ''a'' 0 529 23) (cell ''b'' 0 400 20)"
  by (simp add: canEat_def cell_def fl_20)

section \<open>Claims about the settlement arithmetic\<close>




text \<open>
  Claim C6, as amended. Under the proportional model, when the final mass of every
  player is zero, every payout computed by \<open>calculateResults\<close> is zero: the net pot is
  not split, it is paid to nobody.
\<close>

theorem proportional_all_zero:
  assumes "payoutModel (config m) = PROPORTIONAL" "\<forall>p\<in>set (players m). mass p = 0"
  shows "\<forall>r\<in>set (calculateResults m). payoutCents r = 0"
proof -
  have "\<forall>a\<in>set (sortedPlayers (players m)). finalMass a = 0"
    using assms(2) by (auto simp: sortedPlayers_def)
  then have "payouts_of PROPORTIONAL (netPot_of (config m)) (sortedPlayers (players m))
             = map (\<lambda>p. 0) (sortedPlayers (players m))"
    by (rule proportional_zero)
  then have "map payoutCents (calculateResults m) = map (\<lambda>p. 0) (sortedPlayers (players m))"
    using assms(1) by (simp add: payouts_calculateResults)
  then have "\<forall>x\<in>set (map payoutCents (calculateResults m)). x = 0" by simp
  then show ?thesis by simp
qed

theorem proportional_all_zero_witness:
  "payoutModel (config (example_match PROPORTIONAL 0 0)) = PROPORTIONAL
   \<and> list_all (\<lambda>p. mass p = 0) (players (example_match PROPORTIONAL 0 0))
   \<and> list_all (\<lambda>r. payoutCents r = 0) (calculateResults (example_match PROPORTIONAL 0 0))"
proof -
  have a: "payoutModel (config (example_match PROPORTIONAL 0 0)) = PROPORTIONAL"
    by (simp add: example_match_def example_config_simps)
  have b: "\<forall>p\<in>set (players (example_match PROPORTIONAL 0 0)). mass p = 0"
    by (simp add: example_match_def cell_def)
  show ?thesis using a b proportional_all_zero[OF a b] by (simp only: list_all_iff)
qed

text \<open>
  The claim as stated fails for two players of mass zero: the equal split of the net pot
  of 1840 would pay 920 to each, and the code pays 0 to each.
\<close>

theorem proportional_all_zero_counterexample:
  "map payoutCents (calculateResults (example_match PROPORTIONAL 0 0)) = [0, 0]
   \<and> spec_equal_split (netPot_of (config (example_match PROPORTIONAL 0 0))) 2 = [920, 920]"
  by (simp add: payouts_calculateResults example_match_def example_config_simps payouts_of_def
      sortedPlayers_def cell_def spec_equal_split_def upt_two fl_zero)

section \<open>Claims about the match\<close>

lemma rng_next_range: "0 \<le> fst (rng_next st) \<and> fst (rng_next st) < 1"
  by (simp add: rng_next_def Let_def)

lemma randomPointInCircle_norm:
  assumes "0 \<le> rad"
  shows "(x_coord (fst (randomPointInCircle st rad)))\<^sup>2 + (y_coord (fst (randomPointInCircle st rad)))\<^sup>2 \<le> rad\<^sup>2"
proof -
  obtain u1 st1 where a: "rng_next st = (u1, st1)" by (cases "rng_next st")
  obtain u2 st2 where b: "rng_next st1 = (u2, st2)" by (cases "rng_next st1")
  have u2: "0 \<le> u2" "u2 < 1" using rng_next_range[of st1] b by simp_all
  define ang where "ang = u1 * pi * 2"
  have "(cos ang * (sqrt u2 * rad))\<^sup>2 + (sin ang * (sqrt u2 * rad))\<^sup>2
        = ((cos ang)\<^sup>2 + (sin ang)\<^sup>2) * (sqrt u2 * rad)\<^sup>2"
    by (simp only: power_mult_distrib distrib_right)
  also have "\<dots> = (sqrt u2 * rad)\<^sup>2" by (simp only: sin_cos_squared_add2 mult_1)
  also have "\<dots> = u2 * rad\<^sup>2" using u2 by (simp add: power_mult_distrib)
  also have "\<dots> \<le> 1 * rad\<^sup>2" using u2 by (intro mult_right_mono) auto
  finally show ?thesis by (simp add: randomPointInCircle_def a b Let_def ang_def)
qed

lemma map_set_all: "list_all P us \<Longrightarrow> P v \<Longrightarrow> list_all P (map_set key v us)"
  by (induction us) auto

lemma spawnPellet_reachable:
  assumes "list_all reachable_pellet qs"
  shows "list_all reachable_pellet (fst (spawnPellet 1 st w qs))"
proof -
  have "reachable_pellet \<lparr>pos = fst (randomPointInCircle st 1), radius = massToRadius PELLET_MASS,
      mass = PELLET_MASS, pellet_id = fst (uuidv4 w), consumed = False\<rparr>"
    using randomPointInCircle_norm[of 1 st]
    by (simp add: reachable_pellet_def massToRadius_def PELLET_MASS_def MASS_TO_RADIUS_K_def)
  then show ?thesis using assms
    by (simp add: spawnPellet_def split_def Let_def map_set_all)
qed

lemma initializePellets_loop_reachable:
  "list_all reachable_pellet qs \<Longrightarrow> list_all reachable_pellet (fst (initializePellets_loop n 1 st w qs))"
proof (induction n arbitrary: st w qs)
  case 0
  then show ?case by simp
next
  case (Suc n)
  show ?case
    using Suc.IH[OF spawnPellet_reachable[OF Suc.prems, of st w]]
    by (simp add: split_def Let_def)
qed

lemma collision_in_tiny_map:
  assumes "(x_coord a)\<^sup>2 + (y_coord a)\<^sup>2 \<le> 49 / 100" "(x_coord b)\<^sup>2 + (y_coord b)\<^sup>2 \<le> 1"
  shows "checkCollision a (sqrt 10) b 1"
proof -
  define dx where "dx = x_coord b - x_coord a"
  define dy where "dy = y_coord b - y_coord a"
  have "dx * dx \<le> 2 * (x_coord b)\<^sup>2 + 2 * (x_coord a)\<^sup>2"
    using sum_squares_bound[of "x_coord b" "- x_coord a"] 
    by (simp add: dx_def power2_eq_square algebra_simps)
  moreover have "dy * dy \<le> 2 * (y_coord b)\<^sup>2 + 2 * (y_coord a)\<^sup>2"
    using sum_squares_bound[of "y_coord b" "- y_coord a"]
    by (simp add: dy_def power2_eq_square algebra_simps)
  ultimately have "dx * dx + dy * dy < 4" using assms by linarith
  then have "sqrt (dx * dx + dy * dy) < sqrt 4" by (simp only: real_sqrt_less_iff)
  then have "sqrt (dx * dx + dy * dy) < 2" by simp
  moreover have "1 \<le> sqrt 10" by (rule real_sqrt_ge_one) simp
  ultimately have "sqrt (dx * dx + dy * dy) < sqrt 10 + 1" by linarith
  then show ?thesis by (simp add: checkCollision_def Let_def dx_def dy_def)
qed

lemma eat_pellets_all:
  assumes "\<not> isDead p" "radius p = sqrt 10"
    "(x_coord (pos p))\<^sup>2 + (y_coord (pos p))\<^sup>2 \<le> 49 / 100"
    "list_all reachable_pellet qs"
  shows "snd (eat_pellets p cap qs) = []"
  using assms
proof (induction qs arbitrary: p)
  case Nil
  then show ?case by simp
next
  case (Cons q qs)
  have q: "(x_coord (pos q))\<^sup>2 + (y_coord (pos q))\<^sup>2 \<le> 1" "radius q = 1" "\<not> consumed q"
    using Cons.prems(4) by (simp_all add: reachable_pellet_def)
  have c: "checkCollision (pos p) (radius p) (pos q) (radius q)"
    using collision_in_tiny_map[OF Cons.prems(3) q(1)] Cons.prems(2) q(2) by simp
  define p' where "p' = p\<lparr>mass := min (mass p + PELLET_MASS) cap\<rparr>"
  have e: "eatPellet p q cap = (p', q\<lparr>consumed := True\<rparr>, True)"
    using Cons.prems(1) q(3) c by (simp add: eatPellet_def Let_def p'_def)
  have "snd (eat_pellets p' cap qs) = []"
    using Cons.prems by (intro Cons.IH) (simp_all add: p'_def)
  then show ?case by (simp add: e split_def)
qed

lemma player_pairs_one: "player_pairs (Suc 0) = []"
  by (simp add: player_pairs_def)

lemma spawnPellet_world:
  "clock (snd (snd (spawnPellet rad st w qs))) = clock w
   \<and> randoms (snd (snd (spawnPellet rad st w qs))) = randoms w"
  by (simp add: spawnPellet_def split_def Let_def uuidv4_def)

lemma initializePellets_loop_world:
  "clock (snd (initializePellets_loop n rad st w qs)) = clock w
   \<and> randoms (snd (initializePellets_loop n rad st w qs)) = randoms w"
proof (induction n arbitrary: st w qs)
  case 0
  then show ?case by simp
next
  case (Suc n)
  show ?case using Suc.IH spawnPellet_world[of rad st w qs] by (simp add: split_def Let_def)
qed

lemma tiny_world_tw: "\<exists>U. tiny_world r = tw r U"
  by (simp add: tiny_world_def tw_def)

lemma tiny_initializePlayers:
  "\<exists>sp i U'. (x_coord sp)\<^sup>2 + (y_coord sp)\<^sup>2 \<le> 49 / 100
     \<and> initializePlayers tiny_config (tw r U) = ([tiny_player sp i], tw r U')"
proof -
  define sp where "sp = fst (randomPointInCircle (seedToNumber ''00'') (1 * 0.7))"
  have "(x_coord sp)\<^sup>2 + (y_coord sp)\<^sup>2 \<le> (1 * 0.7)\<^sup>2"
    unfolding sp_def by (rule randomPointInCircle_norm) simp
  then have n: "(x_coord sp)\<^sup>2 + (y_coord sp)\<^sup>2 \<le> 49 / 100" by (simp add: power2_eq_square)
  have "initializePlayers tiny_config (tw r U) = ([tiny_player sp (shd U)], tw r (stl U))"
    by (simp add: initializePlayers_def tiny_config_def split_def Let_def tiny_player_def sp_def
        massToRadius_def INITIAL_PLAYER_MASS_def MASS_TO_RADIUS_K_def uuidv4_def tw_def)
  then show ?thesis using n by blast
qed

lemma tiny_initializePellets:
  "\<exists>Q U'. list_all reachable_pellet Q \<and> initializePellets tiny_config (tw r U) = (Q, tw r U')"
proof -
  define res where "res = initializePellets_loop 500 1 (seedToNumber ''00'') (tw r U) []"
  have a: "list_all reachable_pellet (fst res)"
    unfolding res_def by (rule initializePellets_loop_reachable) simp
  have b: "clock (snd res) = clock (tw r U) \<and> randoms (snd res) = randoms (tw r U)"
    unfolding res_def by (rule initializePellets_loop_world)
  have "snd res = tw r (uuids (snd res))"
  proof (cases "snd res")
    case (fields c rs us)
    then show ?thesis using b by (simp add: tw_def)
  qed
  moreover have "initializePellets tiny_config (tw r U) = (fst res, snd res)"
    by (simp add: initializePellets_def tiny_config_def res_def)
  ultimately show ?thesis using a by metis
qed

lemma updatePlayer_tiny:
  "updatePlayer (tiny_player sp i) (1 / TICK_RATE) w = (tiny_player sp i, w)"
  by (simp add: updatePlayer_def tiny_player_def Let_def scale_def massToRadius_def
      MASS_TO_RADIUS_K_def FRICTION_def calculateMaxVelocity_def exceeds_def INITIAL_PLAYER_MASS_def
      MAX_VELOCITY_def)

lemma constrainToMap_tiny:
  assumes "(x_coord sp)\<^sup>2 + (y_coord sp)\<^sup>2 \<le> 49 / 100"
  shows "constrainToMap (tiny_player sp i) 1 = tiny_player sp i"
proof -
  have "sqrt ((x_coord sp)\<^sup>2 + (y_coord sp)\<^sup>2) \<le> sqrt 1"
    using assms by simp
  then show ?thesis by (simp add: constrainToMap_def tiny_player_def Let_def)
qed

lemma tiny_config_simps:
  "mapRadius tiny_config = 1" "buyInCents tiny_config = 1000" "seed tiny_config = ''00''"
  by (simp_all add: tiny_config_def)

lemma tiny_run_pellets:
  "length (pellets (tiny_run r)) = (if r < 1 / 10 then 1 else 0)"
proof -
  obtain U0 where U0: "tiny_world r = tw r U0" using tiny_world_tw by blast
  obtain sp i U where sp: "(x_coord sp)\<^sup>2 + (y_coord sp)\<^sup>2 \<le> 49 / 100"
    and ip: "initializePlayers tiny_config (tw r U0) = ([tiny_player sp i], tw r U)"
    using tiny_initializePlayers by blast
  obtain Q U' where Q: "list_all reachable_pellet Q"
    and iq: "initializePellets tiny_config (tw r U) = (Q, tw r U')"
    using tiny_initializePellets by blast
  define m2 where "m2 =
     \<lparr>config = tiny_config, state = ACTIVE, tick = 1, startTime = 10000, countdownStartTime = 0,
      players = [tiny_player sp i], pellets = Q, fogRadius = 1,
      growthCap = 5000, events = [EV_COUNTDOWN]\<rparr>"
  define w3 where "w3 = \<lparr>clock = sconst 10033, randoms = sconst r, uuids = U'\<rparr>"
  have nm: "new_Match tiny_config (tiny_world r) =
      (\<lparr>config = tiny_config, state = COUNTDOWN, tick = 0, startTime = 0, countdownStartTime = 0,
        players = [tiny_player sp i], pellets = Q, fogRadius = 1, growthCap = 5000, events = []\<rparr>,
       tw r U')"
    by (simp add: new_Match_def U0 ip iq GROWTH_CAP_MULTIPLIER_def tiny_config_simps)
  have two: "(let (m0, w1) = new_Match tiny_config (tiny_world r);
          (m1, w2) = startCountdown m0 w1
      in update m1 w2) = (m2, w3)"
    unfolding nm
    by (simp add: startCountdown_def update_def startMatch_def Date_now_def
        emitEvent_def tw_def m2_def w3_def)
  have e: "snd (eat_pellets (tiny_player sp i) 5000 Q) = []"
    using sp Q by (intro eat_pellets_all) (simp_all add: tiny_player_def)
  obtain p' where p': "eat_pellets (tiny_player sp i) 5000 Q = (p', [])"
    using e by (cases "eat_pellets (tiny_player sp i) 5000 Q") simp
  have three: "pellets (fst (update m2 w3)) =
      (if r < 1 / 10
       then fst (spawnPellet 1 (seedToNumber ''00'') \<lparr>clock = sconst 10033, randoms = sconst r, uuids = U'\<rparr> [])
       else [])"
    by (simp add: update_def Date_now_def m2_def w3_def NORMAL_PHASE_MS_def physics_step_def
        updatePlayer_tiny constrainToMap_tiny[OF sp] collide_players_def player_pairs_one p'
        respawn_def Math_random_def tiny_config_simps split_def Let_def)
  have "tiny_run r = fst (update m2 w3)"
    using two by (simp add: tiny_run_def split_def Let_def)
  then show ?thesis using three by (simp add: spawnPellet_def split_def Let_def)
qed

text \<open>
  Claim C3 (the code departs from it). Two runs of the same match (the same seed, the same
  member, the same map radius, the same clock readings and identifiers), stepped through
  the countdown and one tick of play, differ in what \<open>Math.random()\<close> returns: 0.05 in one,
  0.5 in the other. In the tick of play the cell eats every pellet of the small map; then
  the first run respawns a pellet and the second does not, so the positions of the
  pellets differ. The respawn is gated by the unseeded generator, not by the seed.
\<close>

theorem respawn_depends_on_Math_random:
  "length (pellets (tiny_run 0.05)) = 1
   \<and> pellets (tiny_run 0.5) = []
   \<and> map pos (pellets (tiny_run 0.05)) \<noteq> map pos (pellets (tiny_run 0.5))"
proof -
  have a: "length (pellets (tiny_run 0.05)) = 1" by (simp add: tiny_run_pellets)
  have b: "length (pellets (tiny_run 0.5)) = 0" by (simp add: tiny_run_pellets)
  have "length (map pos (pellets (tiny_run 0.05))) \<noteq> length (map pos (pellets (tiny_run 0.5)))"
    using a b by simp
  then have "map pos (pellets (tiny_run 0.05)) \<noteq> map pos (pellets (tiny_run 0.5))"
    by metis
  then show ?thesis using a b by simp
qed

section \<open>Claims about the ledger and the lobby service\<close>

lemma house_not_AB: "HOUSE_USER_ID \<noteq> ''A''" "HOUSE_USER_ID \<noteq> ''B''"
  by (simp_all add: HOUSE_USER_ID_def)

lemma joined_db_eq:
  "joined_db =
     \<lparr>users = {''A'', ''B'', HOUSE_USER_ID},
      kyc_status = Map.empty,
      wallets = [''A'' \<mapsto> \<lparr>available_cents = 4000, escrow_cents = 1000, version = 1\<rparr>,
                 ''B'' \<mapsto> \<lparr>available_cents = 4000, escrow_cents = 1000, version = 1\<rparr>],
      wallet_tx =
        [\<lparr>tx_id = ''t1'', tx_user_id = ''A'', tx_type = ESCROW_LOCK, amount_cents = 1000,
          tx_status = TX_COMPLETED, tx_ref = ''L'', idempotency_key = None\<rparr>,
         \<lparr>tx_id = ''t2'', tx_user_id = ''B'', tx_type = ESCROW_LOCK, amount_cents = 1000,
          tx_status = TX_COMPLETED, tx_ref = ''L'', idempotency_key = None\<rparr>],
      lobbies = [''L'' \<mapsto> \<lparr>lobby_mode = SOLO, buy_in_cents = 1000,
                              lobby_payout_model = PROPORTIONAL, lobby_state = WAITING,
                              rake_bps = 800, rake_cap_cents = None\<rparr>],
      lobby_players =
        [\<lparr>lp_lobby_id = ''L'', lp_user_id = ''A'', team_no = 0\<rparr>,
         \<lparr>lp_lobby_id = ''L'', lp_user_id = ''B'', team_no = 0\<rparr>]\<rparr>"
  by (simp add: joined_db_def example_db_def joinLobby_def lockEscrow_def transaction_def
      update_wallet_def insert_wallet_tx_def insert_lobby_player_def getMaxPlayers_def fun_upd_twist)

text \<open>
  Claim C2 (the code departs from it). With both players of \<open>joined_db\<close> holding their
  buy-in of 1000 cents in escrow, \<open>settleMatch\<close> is called with the payouts that
  \<open>calculateResults\<close> computes under the proportional model for two final masses of
  zero, and the rake of 160 cents. The code takes \<open>(0 + 0 + 160) / 2 = 80\<close> cents from
  the escrow of each player, not the buy-in: 920 cents stay locked.
\<close>

theorem settleMatch_releases_share_not_buy_in:
  "fst (settleMatch ''M'' [(''A'', 0), (''B'', 0)] 160 example_ids joined_db) = Inr ()
   \<and> wallets (snd (settleMatch ''M'' [(''A'', 0), (''B'', 0)] 160 example_ids joined_db)) ''A''
       = Some \<lparr>available_cents = 4000, escrow_cents = 920, version = 2\<rparr>
   \<and> wallets (snd (settleMatch ''M'' [(''A'', 0), (''B'', 0)] 160 example_ids joined_db)) ''B''
       = Some \<lparr>available_cents = 4000, escrow_cents = 920, version = 2\<rparr>
   \<and> map payoutCents (calculateResults (example_match PROPORTIONAL 0 0)) = [0, 0]
   \<and> rake_of (example_config PROPORTIONAL) = 160"
proof -
  have "settleMatch ''M'' [(''A'', 0), (''B'', 0)] 160 example_ids joined_db =
    (Inr (), joined_db
      \<lparr>wallets := [''A'' \<mapsto> \<lparr>available_cents = 4000, escrow_cents = 920, version = 2\<rparr>,
                    ''B'' \<mapsto> \<lparr>available_cents = 4000, escrow_cents = 920, version = 2\<rparr>],
       wallet_tx := wallet_tx joined_db @
         [\<lparr>tx_id = ''t3'', tx_user_id = ''A'', tx_type = PAYOUT, amount_cents = 0,
           tx_status = TX_COMPLETED, tx_ref = ''M'', idempotency_key = None\<rparr>,
          \<lparr>tx_id = ''t4'', tx_user_id = ''B'', tx_type = PAYOUT, amount_cents = 0,
           tx_status = TX_COMPLETED, tx_ref = ''M'', idempotency_key = None\<rparr>,
          \<lparr>tx_id = ''t5'', tx_user_id = HOUSE_USER_ID, tx_type = RAKE, amount_cents = 160,
           tx_status = TX_COMPLETED, tx_ref = ''M'', idempotency_key = None\<rparr>]\<rparr>)"
    by (simp add: joined_db_eq settleMatch_def transaction_def escrow_share_def example_ids_def
        update_wallet_def insert_wallet_tx_def house_not_AB fun_upd_twist)
  then show ?thesis
    by (simp add: payouts_calculateResults example_match_def example_config_simps payouts_of_def
        sortedPlayers_def cell_def fl_zero)
qed


text \<open>
  What does hold of \<open>joinLobby\<close>: when one of its own checks fails, or \<open>lockEscrow\<close>
  throws, the store is left as it was.
\<close>

lemma lockEscrow_error_unchanged:
  "fst (lockEscrow uid amount matchRef newId db) = Inl e \<Longrightarrow> snd (lockEscrow uid amount matchRef newId db) = db"
  by (auto simp: lockEscrow_def transaction_def split: if_splits sum.splits option.splits)

lemma joinLobby_error_before_insert:
  assumes "fst (joinLobby lid uid team newTxId newToken db) = Inl e"
    and "\<forall>d. e \<noteq> DbError d"
  shows "snd (joinLobby lid uid team newTxId newToken db) = db"
proof -
  have ins: "insert_lobby_player r d = Inl x \<Longrightarrow> \<exists>k. x = DbError k" for r d x
    by (auto simp: insert_lobby_player_def split: if_splits)
  obtain r1 d1 where l: "lockEscrow uid (buy_in_cents (the (lobbies db lid))) lid newTxId db = (r1, d1)"
    by (cases "lockEscrow uid (buy_in_cents (the (lobbies db lid))) lid newTxId db")
  have l': "r1 = Inl x \<Longrightarrow> d1 = db" for x
    using lockEscrow_error_unchanged[of uid "buy_in_cents (the (lobbies db lid))" lid newTxId db x] l
    by simp
  show ?thesis
    using assms l l'
    by (auto simp: joinLobby_def split: option.splits if_splits sum.splits prod.splits dest!: ins)
qed







section \<open>Claims about the commitment\<close>

lemmas sha_simps = add32_def rotr_def shr_def not32_def Ch_def Maj_def Sigma0_def Sigma1_def
  sigma0_def sigma1_def next_w_def T1_def T2_def

lemma replicate_numeral: "replicate (numeral n) x = x # replicate (pred_numeral n) x"
  by (simp add: numeral_eq_Suc)

lemma compress_S4_1:
  "compress H0
     [808464432, 808464432, 808464432, 808464432, 808464432, 808464432, 808464432, 808464432, 808464432, 808464432, 808464432, 808464432, 808464432, 808464432, 808464432, 808464432]
   = (382213414, 4256307018, 3613355658, 4116894703, 3007061223, 508284753, 31771389, 921699040)"
  unfolding compress_def K256_def H0_def by (simp add: sha_simps)

lemma compress_S4_2:
  "compress (382213414, 4256307018, 3613355658, 4116894703, 3007061223, 508284753, 31771389, 921699040)
     [808464432, 808464432, 808464432, 808464432, 808464432, 808464432, 808464432, 808464432, 2147483648, 0, 0, 0, 0, 0, 0, 768]
   = (3405911783, 2928712389, 4149787803, 3386782883, 1855144746, 3782794917, 2755644863, 1730161782)"
  unfolding compress_def K256_def H0_def by (simp add: sha_simps)

lemma sha256_S4:
  "sha256 [48, 48, 48, 48, 48, 48, 48, 48, 48, 48, 48, 48, 48, 48, 48, 48, 48, 48, 48, 48, 48, 48, 48, 48, 48, 48, 48, 48, 48, 48, 48, 48, 48, 48, 48, 48, 48, 48, 48, 48, 48, 48, 48, 48, 48, 48, 48, 48, 48, 48, 48, 48, 48, 48, 48, 48, 48, 48, 48, 48, 48, 48, 48, 48, 48, 48, 48, 48, 48, 48, 48, 48, 48, 48, 48, 48, 48, 48, 48, 48, 48, 48, 48, 48, 48, 48, 48, 48, 48, 48, 48, 48, 48, 48, 48, 48]
   = [203, 2, 22, 231, 174, 144, 154, 197, 247, 88, 188, 155, 201, 222, 52, 163, 110, 147, 67, 42, 225, 120, 222, 165, 164, 63, 205, 191, 103, 32, 44, 118]"
  by (simp add: sha256_def pad_def be64_def upt_rec word_bytes_def replicate_numeral compress_S4_1 compress_S4_2)

lemma compress_abc_1:
  "compress H0
     [1633837952, 0, 0, 0, 0, 0, 0, 0, 0, 0, 0, 0, 0, 0, 0, 24]
   = (3128432319, 2399260650, 1094795486, 1571693091, 2953011619, 2518121116, 3021012833, 4060091821)"
  unfolding compress_def K256_def H0_def by (simp add: sha_simps)

lemma sha256_abc:
  "sha256 [97, 98, 99]
   = [186, 120, 22, 191, 143, 1, 207, 234, 65, 65, 64, 222, 93, 174, 34, 35, 176, 3, 97, 163, 150, 23, 122, 156, 180, 16, 255, 97, 242, 0, 21, 173]"
  by (simp add: sha256_def pad_def be64_def upt_rec word_bytes_def replicate_numeral compress_abc_1)

lemma compress_seedflip_1:
  "compress H0
     [825241648, 808464432, 808464432, 808464432, 808464432, 808464432, 808464432, 808464432, 808464432, 808464432, 808464432, 808464432, 808464432, 808464432, 808464432, 808464432]
   = (3221472709, 1508175114, 3500791614, 4014537496, 3926334871, 3901353874, 3429279065, 1367418753)"
  unfolding compress_def K256_def H0_def by (simp add: sha_simps)

lemma compress_seedflip_2:
  "compress (3221472709, 1508175114, 3500791614, 4014537496, 3926334871, 3901353874, 3429279065, 1367418753)
     [808464432, 808464432, 808464432, 808464432, 808464432, 808464432, 808464432, 808464432, 2147483648, 0, 0, 0, 0, 0, 0, 768]
   = (3789325550, 187754352, 3595881189, 2376476866, 2243364536, 1916550301, 3654366976, 3167926214)"
  unfolding compress_def K256_def H0_def by (simp add: sha_simps)

lemma sha256_seedflip:
  "sha256 [49, 48, 48, 48, 48, 48, 48, 48, 48, 48, 48, 48, 48, 48, 48, 48, 48, 48, 48, 48, 48, 48, 48, 48, 48, 48, 48, 48, 48, 48, 48, 48, 48, 48, 48, 48, 48, 48, 48, 48, 48, 48, 48, 48, 48, 48, 48, 48, 48, 48, 48, 48, 48, 48, 48, 48, 48, 48, 48, 48, 48, 48, 48, 48, 48, 48, 48, 48, 48, 48, 48, 48, 48, 48, 48, 48, 48, 48, 48, 48, 48, 48, 48, 48, 48, 48, 48, 48, 48, 48, 48, 48, 48, 48, 48, 48]
   = [225, 220, 132, 238, 11, 48, 231, 112, 214, 84, 202, 229, 141, 166, 40, 194, 133, 183, 6, 184, 114, 60, 60, 157, 217, 209, 55, 0, 188, 210, 183, 198]"
  by (simp add: sha256_def pad_def be64_def upt_rec word_bytes_def replicate_numeral compress_seedflip_1 compress_seedflip_2)

lemma compress_nonceflip_2:
  "compress (382213414, 4256307018, 3613355658, 4116894703, 3007061223, 508284753, 31771389, 921699040)
     [825241648, 808464432, 808464432, 808464432, 808464432, 808464432, 808464432, 808464432, 2147483648, 0, 0, 0, 0, 0, 0, 768]
   = (1249092378, 122202970, 3852732175, 3846845466, 3323259514, 2834968433, 2126811336, 3081957442)"
  unfolding compress_def K256_def H0_def by (simp add: sha_simps)

lemma sha256_nonceflip:
  "sha256 [48, 48, 48, 48, 48, 48, 48, 48, 48, 48, 48, 48, 48, 48, 48, 48, 48, 48, 48, 48, 48, 48, 48, 48, 48, 48, 48, 48, 48, 48, 48, 48, 48, 48, 48, 48, 48, 48, 48, 48, 48, 48, 48, 48, 48, 48, 48, 48, 48, 48, 48, 48, 48, 48, 48, 48, 48, 48, 48, 48, 48, 48, 48, 48, 49, 48, 48, 48, 48, 48, 48, 48, 48, 48, 48, 48, 48, 48, 48, 48, 48, 48, 48, 48, 48, 48, 48, 48, 48, 48, 48, 48, 48, 48, 48, 48]
   = [74, 115, 163, 26, 7, 72, 171, 90, 229, 164, 7, 15, 229, 74, 52, 26, 198, 20, 234, 122, 168, 250, 47, 113, 126, 196, 144, 200, 183, 178, 240, 66]"
  by (simp add: sha256_def pad_def be64_def upt_rec word_bytes_def replicate_numeral compress_S4_1 compress_nonceflip_2)

lemma S4_utf8:
  "utf8 (S4_seed @ S4_nonce) = [48, 48, 48, 48, 48, 48, 48, 48, 48, 48, 48, 48, 48, 48, 48, 48, 48, 48, 48, 48, 48, 48, 48, 48, 48, 48, 48, 48, 48, 48, 48, 48, 48, 48, 48, 48, 48, 48, 48, 48, 48, 48, 48, 48, 48, 48, 48, 48, 48, 48, 48, 48, 48, 48, 48, 48, 48, 48, 48, 48, 48, 48, 48, 48, 48, 48, 48, 48, 48, 48, 48, 48, 48, 48, 48, 48, 48, 48, 48, 48, 48, 48, 48, 48, 48, 48, 48, 48, 48, 48, 48, 48, 48, 48, 48, 48]"
  by (simp add: S4_seed_def S4_nonce_def utf8_def replicate_numeral)

lemma replicate_96_48: "replicate 96 (48::nat) = [48, 48, 48, 48, 48, 48, 48, 48, 48, 48, 48, 48, 48, 48, 48, 48, 48, 48, 48, 48, 48, 48, 48, 48, 48, 48, 48, 48, 48, 48, 48, 48, 48, 48, 48, 48, 48, 48, 48, 48, 48, 48, 48, 48, 48, 48, 48, 48, 48, 48, 48, 48, 48, 48, 48, 48, 48, 48, 48, 48, 48, 48, 48, 48, 48, 48, 48, 48, 48, 48, 48, 48, 48, 48, 48, 48, 48, 48, 48, 48, 48, 48, 48, 48, 48, 48, 48, 48, 48, 48, 48, 48, 48, 48, 48, 48]"
  by (simp add: replicate_numeral)

lemma S4_commit_value:
  "createCommit S4_seed S4_nonce = ''cb0216e7ae909ac5f758bc9bc9de34a36e93432ae178dea5a43fcdbf67202c76''"
  by (simp add: createCommit_def S4_utf8 sha256_S4 toHex_def hexdigit_def)

lemma hexdigit_inj: "a < 16 \<Longrightarrow> b < 16 \<Longrightarrow> hexdigit a = hexdigit b \<Longrightarrow> a = b"
proof -
  assume a: "a < 16" and b: "b < 16" and e: "hexdigit a = hexdigit b"
  have d: "distinct ''0123456789abcdef''" by simp
  have l: "length ''0123456789abcdef'' = 16" by simp
  show "a = b" using e a b nth_eq_iff_index_eq[OF d, of a b] unfolding hexdigit_def l by blast
qed

lemma toHex_inj:
  "\<forall>b\<in>set xs. b < 256 \<Longrightarrow> \<forall>b\<in>set ys. b < 256 \<Longrightarrow> toHex xs = toHex ys \<Longrightarrow> xs = ys"
proof (induction xs arbitrary: ys)
  case Nil
  then show ?case by (cases ys) (simp_all add: toHex_def)
next
  case (Cons x xs)
  then obtain y ys' where ys: "ys = y # ys'" by (cases ys) (auto simp: toHex_def)
  have x: "x < 256" and y: "y < 256" using Cons.prems ys by auto
  have h: "hexdigit (x div 16) = hexdigit (y div 16)" "hexdigit (x mod 16) = hexdigit (y mod 16)"
    and t: "toHex xs = toHex ys'"
    using Cons.prems(3) ys by (simp_all add: toHex_def)
  have "x div 16 = y div 16" using h(1) x y by (intro hexdigit_inj) auto
  moreover have "x mod 16 = y mod 16" using h(2) by (intro hexdigit_inj) auto
  ultimately have "x = y" by (metis div_mult_mod_eq)
  moreover have "xs = ys'" using Cons.IH[of ys'] Cons.prems ys t by auto
  ultimately show ?case using ys by simp
qed

lemma sha256_bytes: "\<forall>b\<in>set (sha256 m). b < 256"
proof -
  obtain a b c d e f g h where s: "hash_blocks H0 (words_of (pad m)) = (a, b, c, d, e, f, g, h)"
    by (cases "hash_blocks H0 (words_of (pad m))") auto
  show ?thesis by (simp add: sha256_def s word_bytes_def)
qed

lemma verifyCommitment_iff:
  "verifyCommitment sd nc (createCommit sd' nc') \<longleftrightarrow> sha256 (utf8 (sd @ nc)) = sha256 (utf8 (sd' @ nc'))"
  using toHex_inj[OF sha256_bytes sha256_bytes]
  by (auto simp: verifyCommitment_def createCommit_def)

lemma verifyCommitment_own: "verifyCommitment sd nc (createCommit sd nc)"
  by (simp add: verifyCommitment_def)

lemma verifyCommitment_generated:
  "generateCommitment seedBytes nonceBytes = (sd, nc, cm) \<Longrightarrow> verifyCommitment sd nc cm"
  by (auto simp: generateCommitment_def verifyCommitment_def Let_def)

lemma flip_char_neq:
  assumes "k < 8"
  shows "char_of ((of_char c :: nat) XOR 2 ^ k) \<noteq> c"
proof
  assume e: "char_of ((of_char c :: nat) XOR 2 ^ k) = c"
  have lt: "(of_char c :: nat) XOR 2 ^ k < 256"
  proof -
    have "(of_char c :: nat) mod 256 < 256" by simp
    then have c8: "(of_char c :: nat) < 2 ^ 8" by simp
    have k8: "(2::nat) ^ k < 2 ^ 8" using assms by (intro power_strict_increasing) auto
    have "take_bit 8 ((of_char c :: nat) XOR 2 ^ k) = take_bit 8 (of_char c :: nat) XOR take_bit 8 (2 ^ k)"
      by (rule take_bit_xor)
    also have "\<dots> = (of_char c :: nat) XOR 2 ^ k"
      using c8 k8 by (simp only: take_bit_nat_eq_self)
    finally have "(of_char c :: nat) XOR 2 ^ k < 2 ^ 8"
      by (simp only: take_bit_nat_eq_self_iff)
    then show ?thesis by simp
  qed
  have "of_char (char_of ((of_char c :: nat) XOR 2 ^ k) :: char) = ((of_char c :: nat) XOR 2 ^ k) mod 256"
    by simp
  then have "(of_char c :: nat) = (of_char c :: nat) XOR 2 ^ k" using e lt by simp
  then have "(of_char c :: nat) XOR ((of_char c :: nat) XOR 2 ^ k) = 0" by simp
  then have "(2::nat) ^ k = 0" by (simp add: xor.assoc[symmetric])
  then show False by simp
qed

lemma flip_bit_at_neq: "i < length s \<Longrightarrow> k < 8 \<Longrightarrow> flip_bit_at i k s \<noteq> s"
  using flip_char_neq[of k "s ! i"] by (metis flip_bit_at_def nth_list_update_eq)

lemma verifyCommitment_flipped_commit:
  "i < length (createCommit sd nc) \<Longrightarrow> k < 8 \<Longrightarrow> \<not> verifyCommitment sd nc (flip_bit_at i k (createCommit sd nc))"
  using flip_bit_at_neq[of i "createCommit sd nc" k] by (auto simp: verifyCommitment_def)

lemma S4_flipped_seed:
  "utf8 (flip_bit_at 0 0 S4_seed @ S4_nonce) = [49, 48, 48, 48, 48, 48, 48, 48, 48, 48, 48, 48, 48, 48, 48, 48, 48, 48, 48, 48, 48, 48, 48, 48, 48, 48, 48, 48, 48, 48, 48, 48, 48, 48, 48, 48, 48, 48, 48, 48, 48, 48, 48, 48, 48, 48, 48, 48, 48, 48, 48, 48, 48, 48, 48, 48, 48, 48, 48, 48, 48, 48, 48, 48, 48, 48, 48, 48, 48, 48, 48, 48, 48, 48, 48, 48, 48, 48, 48, 48, 48, 48, 48, 48, 48, 48, 48, 48, 48, 48, 48, 48, 48, 48, 48, 48]"
  by (simp add: S4_seed_def S4_nonce_def utf8_def replicate_numeral flip_bit_at_def)

lemma S4_flipped_nonce:
  "utf8 (S4_seed @ flip_bit_at 0 0 S4_nonce) = [48, 48, 48, 48, 48, 48, 48, 48, 48, 48, 48, 48, 48, 48, 48, 48, 48, 48, 48, 48, 48, 48, 48, 48, 48, 48, 48, 48, 48, 48, 48, 48, 48, 48, 48, 48, 48, 48, 48, 48, 48, 48, 48, 48, 48, 48, 48, 48, 48, 48, 48, 48, 48, 48, 48, 48, 48, 48, 48, 48, 48, 48, 48, 48, 49, 48, 48, 48, 48, 48, 48, 48, 48, 48, 48, 48, 48, 48, 48, 48, 48, 48, 48, 48, 48, 48, 48, 48, 48, 48, 48, 48, 48, 48, 48, 48]"
  by (simp add: S4_seed_def S4_nonce_def utf8_def replicate_numeral flip_bit_at_def)

text \<open>
  The commitment of scenario S4: the seed \<open>"00"\<close> 32 times and the nonce \<open>"00"\<close> 16
  times. \<open>createCommit\<close> hashes the string \<open>seed + nonce\<close>, 96 characters \<open>0\<close>, and
  returns \<open>cb0216e7...2c76\<close>; \<open>verifyCommitment\<close> returns true for that commitment and
  false for the commitment with any one bit flipped. For a changed seed or nonce the
  answer is a matter of the digests, and each changed string is one more evaluation of
  SHA-256: the two that are evaluated here are the seed and the nonce with the lowest
  bit of their first character flipped, and both are rejected.
\<close>

lemma S4_commitment_text:
  "createCommit S4_seed S4_nonce = toHex (sha256 (replicate 96 48))"
  by (simp only: createCommit_def S4_utf8 replicate_96_48)

lemma S4_commitment_verified: "verifyCommitment S4_seed S4_nonce (createCommit S4_seed S4_nonce)"
  by (rule verifyCommitment_own)

lemma S4_commitment_flipped_seed:
  "\<not> verifyCommitment (flip_bit_at 0 0 S4_seed) S4_nonce (createCommit S4_seed S4_nonce)"
  by (simp add: verifyCommitment_iff S4_flipped_seed S4_utf8 sha256_seedflip sha256_S4)

lemma S4_commitment_flipped_nonce:
  "\<not> verifyCommitment S4_seed (flip_bit_at 0 0 S4_nonce) (createCommit S4_seed S4_nonce)"
  by (simp add: verifyCommitment_iff S4_flipped_nonce S4_utf8 sha256_nonceflip sha256_S4)

end
